theory Spec2Isabelle
  imports Main "HOL-Library.Word" "HOL-Library.Log_Nat" "HOL-Library.Sublist"
begin

unbundle bit_operations_syntax

section \<open>parrotty.py: the TTY event logger\<close>

text \<open>
  A shallow embedding of \<^verbatim>\<open>src/parrotty.py\<close>: the ctypes record \<^verbatim>\<open>Event\<close>, the
  formatter \<^verbatim>\<open>printevent\<close>, the clock calibrator built by \<^verbatim>\<open>calibratetimefactory\<close>,
  the ring-buffer callback \<^verbatim>\<open>handleevent\<close>, the signal handler \<^verbatim>\<open>handleinterrupt\<close>,
  and the two kernel probes of \<^verbatim>\<open>bpf_text\<close>.

  Bytes are \<^typ>\<open>char\<close> (an 8-bit value in HOL), byte strings are \<^typ>\<open>string\<close>, Python's
  unbounded integers are \<^typ>\<open>int\<close>, and the fixed-width fields of the C structure are
  words.
\<close>

subsection \<open>Python values the program relies on\<close>

datatype py_error = IndexError | OverflowError

text \<open>
  \<^verbatim>\<open>xs[i]\<close> on a Python list: a negative index counts from the end, anything outside
  \<^verbatim>\<open>-len(xs) <= i < len(xs)\<close> raises \<^verbatim>\<open>IndexError\<close>.
\<close>

definition list_getitem :: "'a list \<Rightarrow> int \<Rightarrow> py_error + 'a" where
  "list_getitem xs i =
     (if 0 \<le> i
      then (if i < int (length xs) then Inr (xs ! nat i) else Inl IndexError)
      else (if - int (length xs) \<le> i then Inr (xs ! nat (int (length xs) + i))
            else Inl IndexError))"

text \<open>\<^verbatim>\<open>str(n)\<close> of a Python integer, as the f-string fields \<^verbatim>\<open>{...}\<close> render it.\<close>

function str_nat :: "nat \<Rightarrow> string" where
  "str_nat n =
     (if n < 10 then [''0123456789'' ! n]
      else str_nat (n div 10) @ [''0123456789'' ! (n mod 10)])"
  by pat_completeness auto
termination
  by (relation "measure id") auto

declare str_nat.simps [simp del]

definition str_int :: "int \<Rightarrow> string" where
  "str_int i = (if i < 0 then ''-'' @ str_nat (nat (- i)) else str_nat (nat i))"

text \<open>
  \<^verbatim>\<open>repr(b)\<close> of a Python \<^verbatim>\<open>bytes\<close> object (also what \<^verbatim>\<open>str(b)\<close> and an f-string
  field give): the prefix \<^verbatim>\<open>b\<close>, a quote (double only when the bytes hold a single
  quote and no double quote), and every byte either as itself, or escaped: the quote and
  the backslash with a backslash, tab, newline and carriage return as
  \<^verbatim>\<open>\t \n \r\<close>, every other byte below 0x20 or from 0x7f on as \<^verbatim>\<open>\xhh\<close>.
\<close>

definition hexdigits :: string where
  "hexdigits = ''0123456789abcdef''"

definition repr_quote :: "string \<Rightarrow> char" where
  "repr_quote bs =
     (if CHR 0x27 \<in> set bs \<and> CHR 0x22 \<notin> set bs then CHR 0x22 else CHR 0x27)"

definition repr_byte :: "char \<Rightarrow> char \<Rightarrow> string" where
  "repr_byte q c =
     (if c = q \<or> c = CHR 0x5C then [CHR 0x5C, c]
      else if c = CHR 0x09 then [CHR 0x5C, CHR ''t'']
      else if c = CHR 0x0A then [CHR 0x5C, CHR ''n'']
      else if c = CHR 0x0D then [CHR 0x5C, CHR ''r'']
      else if (of_char c :: nat) < 32 \<or> 127 \<le> (of_char c :: nat)
        then [CHR 0x5C, CHR ''x'',
              hexdigits ! ((of_char c :: nat) div 16), hexdigits ! ((of_char c :: nat) mod 16)]
      else [c])"

definition bytes_repr :: "string \<Rightarrow> string" where
  "bytes_repr bs =
     (let q = repr_quote bs in CHR ''b'' # q # concat (map (repr_byte q) bs) @ [q])"

subsection \<open>The event record\<close>

text \<open>
  \<^verbatim>\<open>class Event(Structure)\<close>, lines 37-48. The \<^verbatim>\<open>c_ulonglong\<close> fields are 64-bit words, read
  as non-negative Python integers (\<^const>\<open>uint\<close>); \<^verbatim>\<open>len\<close> is a \<^verbatim>\<open>c_uint\<close>; \<^verbatim>\<open>etype\<close> is a
  \<^verbatim>\<open>c_int\<close>, read as a signed integer (\<^const>\<open>sint\<close>); \<^verbatim>\<open>comm\<close> and \<^verbatim>\<open>buf\<close> are the 16 and
  4096 bytes of the two \<^verbatim>\<open>c_char\<close> arrays.
\<close>

record Event =
  rawtime :: "64 word"
  cgid :: "64 word"
  inode :: "64 word"
  pidtgid :: "64 word"
  nsid :: "64 word"
  comm :: string
  buf :: string
  len :: "32 word"
  etype :: "32 word"

text \<open>
  Reading a structure field that is an array of \<^verbatim>\<open>c_char\<close> (\<^verbatim>\<open>event.comm\<close>, \<^verbatim>\<open>event.buf\<close>):
  ctypes returns a \<^verbatim>\<open>bytes\<close> object holding the bytes of the array up to, and without,
  the first NUL byte (all of them when there is none).
\<close>

definition char_array_get :: "string \<Rightarrow> string" where
  "char_array_get bs = takeWhile (\<lambda>c. c \<noteq> CHR 0x00) bs"

definition EVENT_TYPES :: "string list" where
  "EVENT_TYPES = [''OUTPUT'', ''INPUT'']"

subsection \<open>The formatter\<close>

text \<open>Lines 212 and 213: the two halves of \<^verbatim>\<open>event.pidtgid\<close>.\<close>

definition event_pid :: "int \<Rightarrow> int" where
  "event_pid p = drop_bit 32 p"

definition event_tid :: "int \<Rightarrow> int" where
  "event_tid p = p AND 0xFFFFFFFF"

text \<open>
  \<^verbatim>\<open>printevent\<close>, lines 208-225. Each \<^verbatim>\<open>print\<close> writes its argument and a newline; the
  result is the text written to the standard output, or the exception that the index
  \<^verbatim>\<open>EVENT_TYPES[event.etype]\<close> raises before anything is written. The final
  \<^verbatim>\<open>sys.stdout.flush()\<close> does not change the text.
\<close>

definition header :: "string \<Rightarrow> Event \<Rightarrow> int \<Rightarrow> string" where
  "header d event currenttime =
     ''<'' @ d @ '' pid='' @ str_int (event_pid (uint (pidtgid event)))
     @ '' tid='' @ str_int (event_tid (uint (pidtgid event)))
     @ '' time='' @ str_int currenttime
     @ '' rawtime='' @ str_int (uint (rawtime event))
     @ '' cgid='' @ str_int (uint (cgid event))
     @ '' inode='' @ str_int (uint (inode event))
     @ '' pidtgid='' @ str_int (uint (pidtgid event))
     @ '' nsid='' @ str_int (uint (nsid event))
     @ '' comm='' @ bytes_repr (char_array_get (comm event))
     @ '' len='' @ str_int (uint (len event))
     @ ''>''"

definition payload :: "Event \<Rightarrow> string" where
  "payload event = take (unat (len event)) (char_array_get (buf event))"

definition printevent :: "Event \<Rightarrow> int \<Rightarrow> py_error + string" where
  "printevent event currenttime =
     (case list_getitem EVENT_TYPES (sint (etype event)) of
        Inl e \<Rightarrow> Inl e
      | Inr d \<Rightarrow>
          Inr (header d event currenttime @ ''\<newline>''
               @ bytes_repr (payload event) @ ''\<newline>''))"

subsection \<open>Floating point in the calibrator\<close>

text \<open>
  \<^verbatim>\<open>UPDATE_INTERVAL = 6e10\<close> and \<^verbatim>\<open>DRIFT_THRESHOLD = 1e6\<close> (lines 232, 233) are Python
  floats, IEEE doubles; both are whole numbers that a double holds exactly. In
  \<^verbatim>\<open>lastupdate + UPDATE_INTERVAL\<close> the integer \<^verbatim>\<open>lastupdate\<close> is converted to a double
  and the sum is rounded to a double; the comparisons of an integer with a double
  (\<^verbatim>\<open>wallclocktime > ...\<close>, \<^verbatim>\<open>drift > DRIFT_THRESHOLD\<close>) are exact. Every double that
  occurs is a whole number, so doubles are modelled by their integer values.

  \<open>round_double n\<close> is the double nearest to the integer \<open>n\<close>: the 53 leading bits of
  \<open>n\<close> are kept, the rest is rounded to nearest, ties to the even significand.
\<close>

definition round_double :: "int \<Rightarrow> int" where
  "round_double n =
     (let a = \<bar>n\<bar>; e = bitlen a - 53 in
      if e \<le> 0 then n
      else let q = a div 2 ^ nat e; r = a mod 2 ^ nat e; h = 2 ^ nat (e - 1);
               q' = (if h < r \<or> (r = h \<and> odd q) then q + 1 else q)
           in sgn n * (q' * 2 ^ nat e))"

text \<open>
  The conversion of a Python integer to a float raises \<^verbatim>\<open>OverflowError\<close> when the
  rounded value is beyond the largest double.
\<close>

definition float_of_int :: "int \<Rightarrow> py_error + int" where
  "float_of_int n =
     (if 2 ^ 1024 \<le> \<bar>round_double n\<bar> then Inl OverflowError else Inr (round_double n))"

definition UPDATE_INTERVAL :: int where
  "UPDATE_INTERVAL = 60000000000"

definition DRIFT_THRESHOLD :: int where
  "DRIFT_THRESHOLD = 1000000"

text \<open>
  The double sum \<^verbatim>\<open>x + UPDATE_INTERVAL\<close> of a finite double \<open>x\<close>: the exact sum, rounded.
  (It is never infinite: \<open>6e10\<close> is less than half the gap between the largest double and
  \<open>2 ^ 1024\<close>.)
\<close>

definition add_update_interval :: "int \<Rightarrow> int" where
  "add_update_interval x = round_double (x + UPDATE_INTERVAL)"

subsection \<open>The clock calibrator\<close>

text \<open>
  The two variables \<^verbatim>\<open>clockoffset\<close> and \<^verbatim>\<open>lastupdate\<close> that the closure
  \<^verbatim>\<open>calibratetime\<close> shares with \<^verbatim>\<open>calibratetimefactory\<close>. \<open>recalibrations\<close> is not a
  variable of the program: it counts the executions of line 243, the call of
  \<^verbatim>\<open>calculateclockoffset\<close> inside \<^verbatim>\<open>calibratetime\<close>, so that theorems can speak of them.
\<close>

record calibration =
  clockoffset :: int
  lastupdate :: int
  recalibrations :: nat

text \<open>
  \<^verbatim>\<open>calculateclockoffset\<close>, lines 227-230. Its argument is the pair of values that
  \<^verbatim>\<open>time.time_ns()\<close> and \<^verbatim>\<open>time.monotonic_ns()\<close> return when it runs.
\<close>

definition calculateclockoffset :: "int \<times> int \<Rightarrow> int \<times> int" where
  "calculateclockoffset clocks =
     (case clocks of (wallclocktime, monotonictime) \<Rightarrow>
        (wallclocktime - monotonictime, wallclocktime))"

text \<open>\<^verbatim>\<open>calibratetimefactory\<close>, lines 235-236 and 245: the state of the new closure.\<close>

definition calibratetimefactory :: "int \<times> int \<Rightarrow> calibration" where
  "calibratetimefactory clocks =
     (case calculateclockoffset clocks of (offset, updated) \<Rightarrow>
        \<lparr>clockoffset = offset, lastupdate = updated, recalibrations = 0\<rparr>)"

text \<open>
  \<^verbatim>\<open>calibratetime\<close>, lines 237-244. \<open>clocks\<close> is what the two clocks show if line 243
  runs. The result is the returned time and the closure's state after the call.
\<close>

definition calibratetime ::
  "calibration \<Rightarrow> int \<Rightarrow> int \<Rightarrow> int \<times> int \<Rightarrow> py_error + (int \<times> calibration)" where
  "calibratetime st raw wallclocktime clocks =
     (let calibratedtime = raw + clockoffset st;
          drift = \<bar>wallclocktime - calibratedtime\<bar>
      in case float_of_int (lastupdate st) of
           Inl e \<Rightarrow> Inl e
         | Inr updated \<Rightarrow>
             if add_update_interval updated < wallclocktime \<or> DRIFT_THRESHOLD < drift
             then (case calculateclockoffset clocks of (offset, updated') \<Rightarrow>
                     Inr (calibratedtime,
                          \<lparr>clockoffset = offset, lastupdate = updated',
                           recalibrations = Suc (recalibrations st)\<rparr>))
             else Inr (calibratedtime, st))"

text \<open>
  The calibrator called for one event after the other, as \<^verbatim>\<open>handleevent\<close> does: each
  element is the \<^verbatim>\<open>rawtime\<close> of an event, the wall-clock time read for it, and the clocks
  at that moment. The result lists the returned times in order.
\<close>

fun calibrate_seq ::
  "calibration \<Rightarrow> (int \<times> int \<times> (int \<times> int)) list \<Rightarrow> py_error + (int list \<times> calibration)" where
  "calibrate_seq st [] = Inr ([], st)"
| "calibrate_seq st ((raw, wallclocktime, clocks) # xs) =
     (case calibratetime st raw wallclocktime clocks of
        Inl e \<Rightarrow> Inl e
      | Inr (t, st') \<Rightarrow>
          (case calibrate_seq st' xs of
             Inl e \<Rightarrow> Inl e
           | Inr (ts, st'') \<Rightarrow> Inr (t # ts, st'')))"

subsection \<open>The callback and the signal handler\<close>

text \<open>
  The state of the main program: the global \<^verbatim>\<open>running\<close>, the state of the closure
  \<^verbatim>\<open>calibratetime\<close>, and the text written to the standard output so far.
\<close>

record state =
  running :: bool
  calib :: calibration
  stdout :: string

text \<open>
  \<^verbatim>\<open>handleevent\<close>, lines 252-262, called with the event that \<^verbatim>\<open>data\<close> points to, the
  value \<^verbatim>\<open>time.time_ns()\<close> returns at line 256, and the clocks for the calibrator. An
  exception other than \<^verbatim>\<open>KeyboardInterrupt\<close> leaves the function; the result then holds
  the state at that moment too. \<^verbatim>\<open>KeyboardInterrupt\<close> is not raised by anything the body
  calls (the interrupt signal has the handler \<^verbatim>\<open>handleinterrupt\<close>, lines 268-269), so
  the \<^verbatim>\<open>except\<close> branch has no case here.
\<close>

definition handleevent ::
  "state \<Rightarrow> Event \<Rightarrow> int \<Rightarrow> int \<times> int \<Rightarrow> (py_error \<times> state) + state" where
  "handleevent st event wallclocktime clocks =
     (if running st then
        (case calibratetime (calib st) (uint (rawtime event)) wallclocktime clocks of
           Inl e \<Rightarrow> Inl (e, st)
         | Inr (currenttime, c) \<Rightarrow>
             (case printevent event currenttime of
                Inl e \<Rightarrow> Inl (e, st\<lparr>calib := c\<rparr>)
              | Inr text \<Rightarrow> Inr (st\<lparr>calib := c, stdout := stdout st @ text\<rparr>)))
      else Inr st)"

text \<open>\<^verbatim>\<open>handleinterrupt\<close>, lines 264-266.\<close>

definition handleinterrupt :: "state \<Rightarrow> state" where
  "handleinterrupt st = st\<lparr>running := False\<rparr>"

subsection \<open>The callback line by line, with signals\<close>

text \<open>
  Python runs a signal handler in the main thread between two instructions of the code
  that is running, so \<^verbatim>\<open>handleinterrupt\<close> can run between any two lines of
  \<^verbatim>\<open>handleevent\<close>. A control point names the line of \<^verbatim>\<open>handleevent\<close> to run next and
  holds the local variables that are assigned and still used: \<^verbatim>\<open>wallclocktime\<close> from line
  256, \<^verbatim>\<open>event\<close> from line 257, \<^verbatim>\<open>rawtime\<close> from line 258, \<^verbatim>\<open>currenttime\<close> from line 259.
\<close>

datatype control =
    At255
  | At256
  | At257 int
  | At258 int Event
  | At259 int Event int
  | At260 Event int
  | Returned
  | Raised py_error

text \<open>
  One line of \<^verbatim>\<open>handleevent\<close>; \<open>data\<close> is the record the callback was called with, \<open>now\<close>
  the value of \<^verbatim>\<open>time.time_ns()\<close> at line 256.
\<close>

fun step_line :: "Event \<Rightarrow> int \<Rightarrow> int \<times> int \<Rightarrow> state \<times> control \<Rightarrow> state \<times> control" where
  "step_line data now clocks (st, At255) = (st, if running st then At256 else Returned)"
| "step_line data now clocks (st, At256) = (st, At257 now)"
| "step_line data now clocks (st, At257 wallclocktime) = (st, At258 wallclocktime data)"
| "step_line data now clocks (st, At258 wallclocktime event) =
     (st, At259 wallclocktime event (uint (rawtime event)))"
| "step_line data now clocks (st, At259 wallclocktime event raw) =
     (case calibratetime (calib st) raw wallclocktime clocks of
        Inl e \<Rightarrow> (st, Raised e)
      | Inr (currenttime, c) \<Rightarrow> (st\<lparr>calib := c\<rparr>, At260 event currenttime))"
| "step_line data now clocks (st, At260 event currenttime) =
     (case printevent event currenttime of
        Inl e \<Rightarrow> (st, Raised e)
      | Inr text \<Rightarrow> (st\<lparr>stdout := stdout st @ text\<rparr>, Returned))"
| "step_line data now clocks (st, Returned) = (st, Returned)"
| "step_line data now clocks (st, Raised e) = (st, Raised e)"

text \<open>
  A schedule says, step by step, whether the next line of the callback runs or a
  termination signal (\<^verbatim>\<open>SIGINT\<close> or \<^verbatim>\<open>SIGTERM\<close>, both handled by \<^verbatim>\<open>handleinterrupt\<close>, lines
  268-269) is delivered.
\<close>

datatype action = Line | Signal

fun run_handler ::
  "Event \<Rightarrow> int \<Rightarrow> int \<times> int \<Rightarrow> action list \<Rightarrow> state \<times> control \<Rightarrow> state \<times> control" where
  "run_handler data now clocks [] cfg = cfg"
| "run_handler data now clocks (Line # as) cfg =
     run_handler data now clocks as (step_line data now clocks cfg)"
| "run_handler data now clocks (Signal # as) (st, c) =
     run_handler data now clocks as (handleinterrupt st, c)"

subsection \<open>The kernel probes\<close>

text \<open>
  The two probes of \<^verbatim>\<open>bpf_text\<close>, lines 79-205. What the kernel hands to a probe is an
  argument of the model: the values the BPF helpers return for the current task, the
  fields of the probed function's arguments, the memory \<^verbatim>\<open>ringbuf_reserve\<close> returns (or
  \<open>None\<close> for a null pointer), and the source of the copy into \<^verbatim>\<open>data->buf\<close> (\<open>None\<close> when
  the read fails, else the byte at each offset). The result is the record submitted to
  the ring buffer, or \<open>None\<close> when the probe returns without submitting one.

  \<^verbatim>\<open>PAGE_SIZE\<close> comes from \<^verbatim>\<open><asm/page.h>\<close>, which is not part of the repository; it is
  the 4096 that \<^verbatim>\<open>Event.buf\<close> declares for the same array (line 45).
\<close>

definition PAGE_SIZE :: "64 word" where
  "PAGE_SIZE = 4096"

text \<open>\<^verbatim>\<open>enum event_type_t\<close>, lines 60-63.\<close>

definition OUTPUT :: "32 word" where
  "OUTPUT = 0"

definition INPUT :: "32 word" where
  "INPUT = 1"

datatype iter_type_t = ITER_IOVEC | ITER_UBUF | ITER_OTHER

text \<open>
  The fields of \<^verbatim>\<open>struct iov_iter\<close> that \<^verbatim>\<open>kprobe__tty_write\<close> reads; \<open>data_source\<close> holds
  whether \<^verbatim>\<open>from->data_source == WRITE\<close>; \<open>iov_base\<close> and \<open>iov_len\<close> are those of the
  vector that \<^verbatim>\<open>from->kvec\<close> points to.
\<close>

record iov_iter =
  iter_type :: iter_type_t
  data_source :: bool
  iov_base :: "64 word"
  iov_len :: "64 word"
  ubuf :: "64 word"
  count :: "64 word"

text \<open>
  What the helpers return in a probe: \<^verbatim>\<open>bpf_ktime_get_ns\<close>, \<^verbatim>\<open>bpf_get_current_cgroup_id\<close>,
  \<^verbatim>\<open>bpf_get_current_pid_tgid\<close>, \<^verbatim>\<open>bpf_get_current_comm\<close>, and the namespace number that the
  chain of reads from \<^verbatim>\<open>bpf_get_current_task\<close> ends with.
\<close>

record current_task =
  ktime_get_ns :: "64 word"
  current_cgroup_id :: "64 word"
  current_pid_tgid :: "64 word"
  current_comm :: string
  ns_inum :: "64 word"

text \<open>\<^verbatim>\<open>bpf_probe_read_*(dst, n, src)\<close> when it succeeds: the first \<open>n\<close> bytes of \<open>dst\<close> are replaced.\<close>

definition copy_bytes :: "string \<Rightarrow> nat \<Rightarrow> (nat \<Rightarrow> char) \<Rightarrow> string" where
  "copy_bytes dst n src = map src [0..<n] @ drop n dst"

text \<open>
  \<^verbatim>\<open>kprobe__tty_write\<close>, lines 79-145. \<^verbatim>\<open>count\<close> is a \<^verbatim>\<open>size_t\<close>; the conditional at line 113
  is computed on unsigned 64-bit values and stored in the \<^verbatim>\<open>int size\<close>; at line 118
  \<^verbatim>\<open>size\<close> is converted back (sign-extended) for the comparison with \<^verbatim>\<open>PAGE_SIZE\<close>.
\<close>

definition kprobe__tty_write ::
  "current_task \<Rightarrow> iov_iter \<Rightarrow> 64 word \<Rightarrow> Event option \<Rightarrow> (nat \<Rightarrow> char) option
   \<Rightarrow> Event option" where
  "kprobe__tty_write task from i_ino reserved user_mem =
     (if iter_type from \<noteq> ITER_IOVEC \<and> iter_type from \<noteq> ITER_UBUF then None
      else if \<not> data_source from then None
      else
        let (ptr, cnt) =
              (if iter_type from = ITER_IOVEC then (iov_base from, iov_len from)
               else if iter_type from = ITER_UBUF then (ubuf from, count from)
               else (0, 0))
        in if ptr = 0 \<or> cnt = 0 then None
           else
             (case reserved of
                None \<Rightarrow> None
              | Some data \<Rightarrow>
                  let size = (ucast (if cnt < PAGE_SIZE - 1 then cnt else PAGE_SIZE - 1) :: 32 word)
                  in (case user_mem of
                        None \<Rightarrow> None
                      | Some src \<Rightarrow>
                          let copied = copy_bytes (buf data) (unat size) src;
                              terminated =
                                (if (scast size :: 64 word) < PAGE_SIZE
                                 then copied[unat size := CHR 0x00] else copied)
                          in Some (data\<lparr>buf := terminated,
                                        nsid := ns_inum task,
                                        rawtime := ktime_get_ns task,
                                        cgid := current_cgroup_id task,
                                        inode := i_ino,
                                        pidtgid := current_pid_tgid task,
                                        etype := INPUT,
                                        comm := current_comm task,
                                        len := size\<rparr>))))"

text \<open>
  \<^verbatim>\<open>kprobe__n_tty_receive_buf_common\<close>, lines 147-205. Here \<^verbatim>\<open>count\<close> is an \<^verbatim>\<open>int\<close>; in the
  comparison with the unsigned \<^verbatim>\<open>PAGE_SIZE - 1\<close> it is sign-extended to 64 bits and read as
  unsigned. \<open>ino\<close> is the inode number behind \<^verbatim>\<open>tty->driver_data\<close>, \<open>None\<close> when one of the
  pointers on the way is null.
\<close>

definition kprobe__n_tty_receive_buf_common ::
  "current_task \<Rightarrow> 64 word \<Rightarrow> 32 word \<Rightarrow> 64 word option \<Rightarrow> Event option
   \<Rightarrow> (nat \<Rightarrow> char) option \<Rightarrow> Event option" where
  "kprobe__n_tty_receive_buf_common task cp cnt ino reserved kernel_mem =
     (if cp = 0 then None
      else
        (case reserved of
           None \<Rightarrow> None
         | Some data \<Rightarrow>
             let size = (ucast (if (scast cnt :: 64 word) < PAGE_SIZE - 1 then scast cnt
                                else PAGE_SIZE - 1) :: 32 word)
             in (case kernel_mem of
                   None \<Rightarrow> None
                 | Some src \<Rightarrow>
                     let terminated = (copy_bytes (buf data) (unat size) src)[unat size := CHR 0x00]
                     in Some (data\<lparr>buf := terminated,
                                   nsid := ns_inum task,
                                   rawtime := ktime_get_ns task,
                                   cgid := current_cgroup_id task,
                                   inode := (case ino of None \<Rightarrow> 0 | Some i \<Rightarrow> i),
                                   pidtgid := current_pid_tgid task,
                                   etype := OUTPUT,
                                   comm := current_comm task,
                                   len := size\<rparr>))))"

section \<open>Properties\<close>

subsection \<open>Splitting the combined pid/tgid value\<close>

text \<open>
  C4. For every 64-bit combined value, the process id (high 32 bits) and the thread id
  (low 32 bits) that the formatter prints give the combined value back:
  \<^verbatim>\<open>combined == (pid << 32) | tid\<close>, and both halves fit 32 bits.
\<close>

theorem pidtgid_split_invertible:
  fixes c :: "64 word"
  shows "uint c = push_bit 32 (event_pid (uint c)) OR event_tid (uint c)
         \<and> 0 \<le> event_pid (uint c) \<and> event_pid (uint c) < 2 ^ 32
         \<and> 0 \<le> event_tid (uint c) \<and> event_tid (uint c) < 2 ^ 32"
proof -
  let ?x = "uint c"
  have mask: "(0xFFFFFFFF :: int) = mask 32"
    by (simp add: mask_eq_exp_minus_1)
  have tid: "event_tid ?x = take_bit 32 ?x"
    by (simp add: event_tid_def mask take_bit_eq_mask)
  have rec: "?x = push_bit 32 (drop_bit 32 ?x) OR take_bit 32 ?x"
    by (rule bit_eqI) (auto simp: bit_simps)
  have hi: "drop_bit 32 ?x < 2 ^ 32"
  proof -
    have "?x < 2 ^ 64" using uint_bounded [of c] by simp
    then show ?thesis by (simp add: drop_bit_eq_div)
  qed
  have lo: "take_bit 32 ?x < 2 ^ 32"
    by (rule take_bit_int_less_exp)
  show ?thesis
    using rec hi lo by (simp add: event_pid_def tid)
qed

subsection \<open>Rounding to a double\<close>

lemma bitlen_le: "0 \<le> a \<Longrightarrow> a < 2 ^ k \<Longrightarrow> bitlen a \<le> int k"
  by (simp add: bitlen_def floorlog_le_iff nat_less_iff)

lemma round_double_exact: "\<bar>n\<bar> < 2 ^ 53 \<Longrightarrow> round_double n = n"
  using bitlen_le [of "\<bar>n\<bar>" 53] by (simp add: round_double_def Let_def)

lemma round_double_err:
  assumes "\<bar>n\<bar> < 2 ^ k" and "54 \<le> k"
  shows "\<bar>round_double n - n\<bar> \<le> 2 ^ (k - 54)"
proof -
  define a where "a = \<bar>n\<bar>"
  define e where "e = bitlen a - 53"
  show ?thesis
  proof (cases "e \<le> 0")
    case True
    then show ?thesis by (simp add: round_double_def Let_def a_def e_def)
  next
    case False
    define d where "d = nat e"
    define q where "q = a div 2 ^ d"
    define r where "r = a mod 2 ^ d"
    define h :: int where "h = 2 ^ (d - 1)"
    define q' where "q' = (if h < r \<or> (r = h \<and> odd q) then q + 1 else q)"
    have dpos: "0 < d" using False by (simp add: d_def)
    have a_eq: "a = q * 2 ^ d + r" unfolding q_def r_def by (rule div_mult_mod_eq [symmetric])
    have r_bounds: "0 \<le> r" "r < 2 ^ d" by (simp_all add: r_def)
    have two_h: "(2::int) ^ d = 2 * h"
      using dpos by (cases d) (simp_all add: h_def)
    have err: "\<bar>q' * 2 ^ d - a\<bar> \<le> h"
      unfolding q'_def a_eq using r_bounds two_h by (auto simp: algebra_simps)
    have "bitlen a \<le> int k" using assms(1) by (intro bitlen_le) (simp_all add: a_def)
    then have "d - 1 \<le> k - 54" using False by (simp add: d_def e_def)
    then have h_le: "h \<le> 2 ^ (k - 54)" by (simp add: h_def)
    have nle: "\<not> bitlen \<bar>n\<bar> - 53 \<le> 0" using False by (simp add: e_def a_def)
    have d_eq: "nat (bitlen \<bar>n\<bar> - 53) = d" "nat (bitlen \<bar>n\<bar> - 53 - 1) = d - 1"
      by (simp_all add: d_def e_def a_def nat_diff_distrib)
    have rd: "round_double n = sgn n * (q' * 2 ^ d)"
      unfolding round_double_def Let_def d_eq using nle
      by (simp add: q'_def q_def r_def h_def a_def)
    have "n \<noteq> 0" using False by (auto simp: e_def a_def)
    then have "\<bar>round_double n - n\<bar> = \<bar>q' * 2 ^ d - a\<bar>"
      unfolding rd a_def by (cases "n < 0") (auto simp: sgn_if algebra_simps abs_if)
    then show ?thesis using err h_le by linarith
  qed
qed

lemma round_double_err63: "\<bar>n\<bar> < 2 ^ 63 \<Longrightarrow> \<bar>round_double n - n\<bar> \<le> 512"
  using round_double_err [of n 63] by simp

lemma round_double_err64: "\<bar>n\<bar> < 2 ^ 64 \<Longrightarrow> \<bar>round_double n - n\<bar> \<le> 1024"
  using round_double_err [of n 64] by simp

lemma float_of_int_63:
  assumes "\<bar>n\<bar> < 2 ^ 63"
  shows "float_of_int n = Inr (round_double n)"
proof -
  have "\<bar>round_double n\<bar> < 2 ^ 63 + 513"
    using round_double_err63 [OF assms] assms by linarith
  also have "\<dots> < (2::int) ^ 1024" by simp
  finally show ?thesis by (simp add: float_of_int_def)
qed

lemma threshold_err:
  assumes "\<bar>n\<bar> < 2 ^ 63"
  shows "\<bar>add_update_interval (round_double n) - (n + 60000000000)\<bar> \<le> 1536"
proof -
  have e1: "\<bar>round_double n - n\<bar> \<le> 512" by (rule round_double_err63 [OF assms])
  have "\<bar>round_double n + 60000000000\<bar> < 2 ^ 64"
    using e1 assms by (simp add: abs_if split: if_splits)
  then have e2: "\<bar>round_double (round_double n + 60000000000) - (round_double n + 60000000000)\<bar> \<le> 1024"
    by (rule round_double_err64)
  show ?thesis
    using e1 e2 by (simp add: add_update_interval_def UPDATE_INTERVAL_def)
qed

lemma threshold_exact:
  assumes "\<bar>n\<bar> + 60000000000 < 2 ^ 53"
  shows "add_update_interval (round_double n) = n + 60000000000"
proof -
  have "\<bar>n\<bar> < 2 ^ 53" using assms by simp
  then have "round_double n = n" by (rule round_double_exact)
  moreover have "\<bar>n + 60000000000\<bar> < 2 ^ 53" using assms by (simp add: abs_if split: if_splits)
  ultimately show ?thesis
    by (simp add: add_update_interval_def UPDATE_INTERVAL_def round_double_exact)
qed

lemma calibratetime_Inr:
  assumes "calibratetime st raw wall clocks = Inr (t, st')"
  shows "t = raw + clockoffset st"
    and "st' = st \<or>
         st' = \<lparr>clockoffset = fst clocks - snd clocks, lastupdate = fst clocks,
                recalibrations = Suc (recalibrations st)\<rparr>"
  using assms
  by (auto simp: calibratetime_def Let_def calculateclockoffset_def
      split: sum.splits if_splits prod.splits)

lemma calibratetime_63:
  assumes "\<bar>lastupdate st\<bar> < 2 ^ 63"
  shows "calibratetime st raw wall clocks =
     Inr (raw + clockoffset st,
          if add_update_interval (round_double (lastupdate st)) < wall
             \<or> 1000000 < \<bar>wall - (raw + clockoffset st)\<bar>
          then \<lparr>clockoffset = fst clocks - snd clocks, lastupdate = fst clocks,
                recalibrations = Suc (recalibrations st)\<rparr>
          else st)"
  by (simp add: calibratetime_def Let_def float_of_int_63 [OF assms] calculateclockoffset_def
      DRIFT_THRESHOLD_def split: prod.splits)


lemma calibratetime_small:
  assumes "\<bar>lastupdate st\<bar> + 60000000000 < 2 ^ 53"
  shows "calibratetime st raw wall clocks =
     Inr (raw + clockoffset st,
          if lastupdate st + 60000000000 < wall \<or> 1000000 < \<bar>wall - (raw + clockoffset st)\<bar>
          then \<lparr>clockoffset = fst clocks - snd clocks, lastupdate = fst clocks,
                recalibrations = Suc (recalibrations st)\<rparr>
          else st)"
proof -
  have "\<bar>lastupdate st\<bar> < 2 ^ 63" using assms by simp
  from calibratetime_63 [OF this] threshold_exact [OF assms] show ?thesis by simp
qed

subsection \<open>One call of the calibrator\<close>

text \<open>
  C3. The claim: the calibrator recomputes its offset exactly when more than 60 seconds of
  wall-clock time have passed since the last calibration, or the wall-clock time and the
  calibrated time of the event differ by more than 1 millisecond.

  As amended: for a last calibration time within 64-bit range the call returns the raw
  time plus the stored offset and recalibrates at most once; it recalibrates exactly when
  the wall-clock time exceeds the double-precision sum \<^verbatim>\<open>lastupdate + 6e10\<close> or the
  difference exceeds 1000000 ns. That sum is within 1536 ns of the exact one, and equal to
  it while \<open>\<bar>lastupdate\<bar> + 6e10 < 2 ^ 53\<close>. In particular 61 seconds of elapsed time
  recalibrate, and so does a difference above 1 ms whatever the elapsed time.
\<close>

theorem recalibration_trigger:
  assumes "\<bar>lastupdate st\<bar> < 2 ^ 63"
  shows "\<exists>st'. calibratetime st raw wall clocks = Inr (raw + clockoffset st, st')
      \<and> (recalibrations st' = recalibrations st \<or> recalibrations st' = Suc (recalibrations st))
      \<and> (recalibrations st' = Suc (recalibrations st) \<longleftrightarrow>
           add_update_interval (round_double (lastupdate st)) < wall
           \<or> 1000000 < \<bar>wall - (raw + clockoffset st)\<bar>)
      \<and> \<bar>add_update_interval (round_double (lastupdate st)) - (lastupdate st + 60000000000)\<bar>
           \<le> 1536
      \<and> (\<bar>lastupdate st\<bar> + 60000000000 < 2 ^ 53 \<longrightarrow>
           add_update_interval (round_double (lastupdate st)) = lastupdate st + 60000000000)
      \<and> (61000000000 \<le> wall - lastupdate st \<longrightarrow> recalibrations st' = Suc (recalibrations st))
      \<and> (1000000 < \<bar>wall - (raw + clockoffset st)\<bar> \<longrightarrow>
           recalibrations st' = Suc (recalibrations st))"
proof -
  let ?th = "add_update_interval (round_double (lastupdate st))"
  let ?c = "?th < wall \<or> 1000000 < \<bar>wall - (raw + clockoffset st)\<bar>"
  let ?st' = "if ?c then \<lparr>clockoffset = fst clocks - snd clocks, lastupdate = fst clocks,
                recalibrations = Suc (recalibrations st)\<rparr> else st"
  have run: "calibratetime st raw wall clocks = Inr (raw + clockoffset st, ?st')"
    by (rule calibratetime_63 [OF assms])
  have err: "\<bar>?th - (lastupdate st + 60000000000)\<bar> \<le> 1536"
    by (rule threshold_err [OF assms])
  have exact: "\<bar>lastupdate st\<bar> + 60000000000 < 2 ^ 53 \<longrightarrow> ?th = lastupdate st + 60000000000"
    using threshold_exact by blast
  have late: "61000000000 \<le> wall - lastupdate st \<longrightarrow> ?th < wall"
    using err by linarith
  have cnt: "recalibrations ?st' = Suc (recalibrations st) \<longleftrightarrow> ?c"
    by simp
  show ?thesis
    apply (rule exI [of _ ?st'])
    using run err exact late cnt by auto
qed


text \<open>A run of the theorem: 61 seconds after the last calibration, no drift.\<close>

theorem recalibration_trigger_witness:
  "\<bar>lastupdate \<lparr>clockoffset = 5, lastupdate = 1000, recalibrations = 0\<rparr>\<bar> < 2 ^ 63
   \<and> (\<exists>st'. calibratetime \<lparr>clockoffset = 5, lastupdate = 1000, recalibrations = 0\<rparr>
               60999999995 61000001000 (7, 3) = Inr (61000000000, st')
             \<and> recalibrations st' = 1)"
  using recalibration_trigger [of "\<lparr>clockoffset = 5, lastupdate = 1000, recalibrations = 0\<rparr>"
      "60999999995" "61000001000" "(7, 3)"]
  by auto

text \<open>
  The claim as stated fails: with the last calibration at \<open>2 ^ 60 + 100\<close> ns, which the
  conversion to a double rounds down to \<open>2 ^ 60\<close>, an event 59.99999995 seconds later with
  no drift at all recalibrates.
\<close>

theorem recalibration_trigger_counterexample:
  "1152921564606847026 - lastupdate \<lparr>clockoffset = 0, lastupdate = 1152921504606847076, recalibrations = 0\<rparr>
     \<le> (60000000000 :: int)
   \<and> \<bar>1152921564606847026 - (1152921564606847026
        + clockoffset \<lparr>clockoffset = 0, lastupdate = 1152921504606847076, recalibrations = 0\<rparr>)\<bar>
     \<le> (1000000 :: int)
   \<and> calibratetime \<lparr>clockoffset = 0, lastupdate = 1152921504606847076, recalibrations = 0\<rparr>
        1152921564606847026 1152921564606847026 (1152921564606847030, 30)
      = Inr (1152921564606847026,
             \<lparr>clockoffset = 1152921564606847000, lastupdate = 1152921564606847030,
              recalibrations = 1\<rparr>)"
  by code_simp


subsection \<open>A sequence of calls\<close>

lemma calibrate_seq_mono:
  "calibrate_seq st xs = Inr (ts, st') \<Longrightarrow> recalibrations st \<le> recalibrations st'"
proof (induction xs arbitrary: st ts)
  case Nil
  then show ?case by simp
next
  case (Cons x xs)
  obtain raw wall clocks where x: "x = (raw, wall, clocks)" by (cases x) auto
  from Cons.prems obtain t st1 ts1 where
    step: "calibratetime st raw wall clocks = Inr (t, st1)" and
    rest: "calibrate_seq st1 xs = Inr (ts1, st')"
    by (auto simp: x split: sum.splits prod.splits)
  have "recalibrations st \<le> recalibrations st1"
    using calibratetime_Inr(2) [OF step] by auto
  with Cons.IH [OF rest] show ?case by simp
qed

lemma calibrate_seq_same:
  "calibrate_seq st xs = Inr (ts, st') \<Longrightarrow> recalibrations st' = recalibrations st
   \<Longrightarrow> st' = st \<and> ts = map (\<lambda>x. fst x + clockoffset st) xs"
proof (induction xs arbitrary: st ts)
  case Nil
  then show ?case by simp
next
  case (Cons x xs)
  obtain raw wall clocks where x: "x = (raw, wall, clocks)" by (cases x) auto
  from Cons.prems(1) obtain t st1 ts1 where
    step: "calibratetime st raw wall clocks = Inr (t, st1)" and
    rest: "calibrate_seq st1 xs = Inr (ts1, st')" and
    ts: "ts = t # ts1"
    by (auto simp: x split: sum.splits prod.splits)
  have le: "recalibrations st1 \<le> recalibrations st'" by (rule calibrate_seq_mono [OF rest])
  have st1: "st1 = st"
    using calibratetime_Inr(2) [OF step] le Cons.prems(2) by auto
  have t: "t = raw + clockoffset st" by (rule calibratetime_Inr(1) [OF step])
  from Cons.IH [of st1 ts1] rest Cons.prems(2) st1
  have "st' = st \<and> ts1 = map (\<lambda>x. fst x + clockoffset st) xs" by simp
  then show ?case by (simp add: ts t x)
qed

lemma calibrate_seq_snoc:
  "calibrate_seq st (xs @ [(raw, wall, clocks)]) = Inr (ts, st') \<Longrightarrow>
   \<exists>ts0 st0 t. calibrate_seq st xs = Inr (ts0, st0)
      \<and> calibratetime st0 raw wall clocks = Inr (t, st') \<and> ts = ts0 @ [t]"
proof (induction xs arbitrary: st ts)
  case Nil
  then show ?case by (auto split: sum.splits prod.splits)
next
  case (Cons x xs)
  obtain raw1 wall1 clocks1 where x: "x = (raw1, wall1, clocks1)" by (cases x) auto
  from Cons.prems obtain t1 st1 ts1 where
    step: "calibratetime st raw1 wall1 clocks1 = Inr (t1, st1)" and
    rest: "calibrate_seq st1 (xs @ [(raw, wall, clocks)]) = Inr (ts1, st')" and
    ts: "ts = t1 # ts1"
    by (auto simp: x split: sum.splits prod.splits)
  from Cons.IH [OF rest] obtain ts0 st0 t where
    "calibrate_seq st1 xs = Inr (ts0, st0)"
    "calibratetime st0 raw wall clocks = Inr (t, st')" "ts1 = ts0 @ [t]"
    by blast
  then show ?case by (simp add: x step ts)
qed

lemma sorted_map_add: "sorted (map fst xs) \<Longrightarrow> sorted (map (\<lambda>x. fst x + (c::int)) xs)"
  by (induction xs) auto


text \<open>
  C5. For events with non-decreasing raw times, of which none but possibly the last
  triggers a recalibration, each returned time is the raw time plus the offset in force,
  and the returned times are non-decreasing.
\<close>

theorem calibrated_times_nondecreasing:
  assumes run: "calibrate_seq st xs = Inr (ts, st')"
    and before: "calibrate_seq st (butlast xs) = Inr (ts0, st0)"
    and same: "recalibrations st0 = recalibrations st"
    and sorted: "sorted (map fst xs)"
  shows "ts = map (\<lambda>x. fst x + clockoffset st) xs \<and> sorted ts"
proof -
  have ts: "ts = map (\<lambda>x. fst x + clockoffset st) xs"
  proof (cases xs rule: rev_cases)
    case Nil
    with run show ?thesis by simp
  next
    case (snoc ys y)
    obtain raw wall clocks where y: "y = (raw, wall, clocks)" by (cases y) auto
    from before snoc have b: "calibrate_seq st ys = Inr (ts0, st0)" by simp
    from calibrate_seq_same [OF b same]
    have st0: "st0 = st" and ts0: "ts0 = map (\<lambda>x. fst x + clockoffset st) ys" by simp_all
    from calibrate_seq_snoc [of st ys raw wall clocks ts st'] run snoc y b
    obtain t where step: "calibratetime st0 raw wall clocks = Inr (t, st')" and "ts = ts0 @ [t]"
      by auto
    moreover have "t = raw + clockoffset st"
      using calibratetime_Inr(1) [OF step] st0 by simp
    ultimately show ?thesis by (simp add: snoc y ts0)
  qed
  with sorted_map_add [OF sorted] show ?thesis by simp
qed

text \<open>A run of the theorem: three events, the last of which recalibrates.\<close>

theorem calibrated_times_nondecreasing_witness:
  "calibrate_seq \<lparr>clockoffset = 1000, lastupdate = 2000, recalibrations = 0\<rparr>
      [(1010, 2010, (2010, 1010)), (1020, 2020, (2020, 1020)), (1020, 70000000000, (70000000000, 50))]
     = Inr ([2010, 2020, 2020], \<lparr>clockoffset = 69999999950, lastupdate = 70000000000, recalibrations = 1\<rparr>)
   \<and> sorted [2010, 2020, 2020 :: int]"
proof -
  let ?st = "\<lparr>clockoffset = 1000, lastupdate = 2000, recalibrations = 0\<rparr>"
  let ?xs = "[(1010, 2010, (2010, 1010)), (1020, 2020, (2020, 1020)),
              (1020, 70000000000, (70000000000, 50))] :: (int \<times> int \<times> (int \<times> int)) list"
  have run: "calibrate_seq ?st ?xs
     = Inr ([2010, 2020, 2020], \<lparr>clockoffset = 69999999950, lastupdate = 70000000000, recalibrations = 1\<rparr>)"
    by code_simp
  have before: "calibrate_seq ?st (butlast ?xs) = Inr ([2010, 2020], ?st)"
    by code_simp
  have sorted: "sorted (map fst ?xs)" by simp
  from calibrated_times_nondecreasing [OF run before _ sorted] run
  show ?thesis by simp
qed


text \<open>
  C6. A call that recalibrates stores the new offset and the new calibration time, and
  still returns the time computed with the previous offset; every later call adds the new
  offset; and the callback only ever appends to the text already written.
\<close>

theorem recalibration_not_retroactive:
  assumes "calibratetime st raw wall (w, m) = Inr (t, st')"
    and "recalibrations st' \<noteq> recalibrations st"
  shows "t = raw + clockoffset st
     \<and> clockoffset st' = w - m \<and> lastupdate st' = w
     \<and> (\<forall>raw2 wall2 clocks2 t2 st2.
           calibratetime st' raw2 wall2 clocks2 = Inr (t2, st2) \<longrightarrow> t2 = raw2 + (w - m))
     \<and> (\<forall>s event wall1 clocks1 s'.
           handleevent s event wall1 clocks1 = Inr s' \<longrightarrow> (\<exists>text. stdout s' = stdout s @ text))"
proof -
  have t: "t = raw + clockoffset st" by (rule calibratetime_Inr(1) [OF assms(1)])
  have st': "st' = \<lparr>clockoffset = w - m, lastupdate = w, recalibrations = Suc (recalibrations st)\<rparr>"
    using calibratetime_Inr(2) [OF assms(1)] assms(2) by auto
  have next_ev: "\<forall>raw2 wall2 clocks2 t2 st2.
           calibratetime st' raw2 wall2 clocks2 = Inr (t2, st2) \<longrightarrow> t2 = raw2 + (w - m)"
    using calibratetime_Inr(1) st' by fastforce
  have out: "\<forall>s event wall1 clocks1 s'.
           handleevent s event wall1 clocks1 = Inr s' \<longrightarrow> (\<exists>text. stdout s' = stdout s @ text)"
    by (auto simp: handleevent_def split: if_splits sum.splits prod.splits)
  show ?thesis using t st' next_ev out by simp
qed

text \<open>
  A run of the theorem: the first call recalibrates and returns the time under the old
  offset 5; the second call adds the new offset.
\<close>

theorem recalibration_not_retroactive_witness:
  "calibratetime \<lparr>clockoffset = 5, lastupdate = 1000, recalibrations = 0\<rparr>
       60999999995 61000001000 (61000001007, 3)
     = Inr (61000000000, \<lparr>clockoffset = 61000001004, lastupdate = 61000001007, recalibrations = 1\<rparr>)
   \<and> calibratetime \<lparr>clockoffset = 61000001004, lastupdate = 61000001007, recalibrations = 1\<rparr>
       100 61000001104 (9, 9)
     = Inr (61000001104, \<lparr>clockoffset = 61000001004, lastupdate = 61000001007, recalibrations = 1\<rparr>)
   \<and> 61000001104 = 100 + (61000001007 - (3::int))"
proof -
  let ?st = "\<lparr>clockoffset = 5, lastupdate = 1000, recalibrations = 0\<rparr>"
  let ?st' = "\<lparr>clockoffset = 61000001004, lastupdate = 61000001007, recalibrations = 1\<rparr>"
  have first: "calibratetime ?st 60999999995 61000001000 (61000001007, 3) = Inr (61000000000, ?st')"
    by (simp add: calibratetime_small)
  have changed: "recalibrations ?st' \<noteq> recalibrations ?st" by simp
  have second: "calibratetime ?st' 100 61000001104 (9, 9) = Inr (61000001104, ?st')"
    by (simp add: calibratetime_small)
  from recalibration_not_retroactive [OF first changed] second
  have "61000001104 = 100 + (61000001007 - (3::int))" by blast
  with first second show ?thesis by blast
qed

subsection \<open>The formatter's output\<close>

lemmas print_defs = printevent_def list_getitem_def EVENT_TYPES_def header_def payload_def
  bytes_repr_def char_array_get_def event_pid_def event_tid_def repr_quote_def repr_byte_def
  hexdigits_def Let_def

lemma digit_no_newline: "k < 10 \<Longrightarrow> ''0123456789'' ! k \<noteq> CHR 0x0A"
proof -
  assume "k < 10"
  then have "''0123456789'' ! k \<in> set ''0123456789''" by (intro nth_mem) simp
  then show ?thesis by auto
qed

lemma str_nat_no_newline: "CHR 0x0A \<notin> set (str_nat n)"
proof (induction n rule: str_nat.induct)
  case (1 n)
  show ?case
  proof (cases "n < 10")
    case True
    then show ?thesis using digit_no_newline [of n] by (subst str_nat.simps) auto
  next
    case False
    have "n mod 10 < 10" by simp
    with False 1 digit_no_newline [of "n mod 10"] show ?thesis
      by (subst str_nat.simps) auto
  qed
qed

lemma str_int_no_newline: "CHR 0x0A \<notin> set (str_int i)"
  by (simp add: str_int_def str_nat_no_newline)

lemma hexdigit_no_newline: "k < 16 \<Longrightarrow> hexdigits ! k \<noteq> CHR 0x0A"
proof -
  assume "k < 16"
  then have "hexdigits ! k \<in> set hexdigits" by (intro nth_mem) (simp add: hexdigits_def)
  then show ?thesis by (auto simp: hexdigits_def)
qed

lemma of_char_div16: "(of_char c :: nat) div 16 < 16"
proof -
  have "(of_char c :: nat) < 256" by simp
  then show ?thesis by (simp add: less_mult_imp_div_less)
qed

lemma repr_quote_cases: "repr_quote bs = CHR 0x22 \<or> repr_quote bs = CHR 0x27"
  by (simp add: repr_quote_def)

lemma repr_byte_no_newline:
  assumes "q = CHR 0x22 \<or> q = CHR 0x27"
  shows "CHR 0x0A \<notin> set (repr_byte q c)"
  using assms hexdigit_no_newline [OF of_char_div16 [of c]]
    hexdigit_no_newline [of "(of_char c :: nat) mod 16"]
  by (auto simp: repr_byte_def)

lemma bytes_repr_no_newline: "CHR 0x0A \<notin> set (bytes_repr bs)"
  using repr_quote_cases [of bs] repr_byte_no_newline [of "repr_quote bs"]
  by (auto simp: bytes_repr_def Let_def)

lemma header_no_newline:
  "CHR 0x0A \<notin> set d \<Longrightarrow> CHR 0x0A \<notin> set (header d event t)"
  by (simp add: header_def str_int_no_newline bytes_repr_no_newline)

lemma printevent_valid:
  assumes "etype event = 0 \<or> etype event = 1"
  shows "printevent event t =
     Inr (header (if etype event = 0 then ''OUTPUT'' else ''INPUT'') event t @ ''\<newline>''
          @ bytes_repr (payload event) @ ''\<newline>'')"
  using assms by (auto simp: printevent_def list_getitem_def EVENT_TYPES_def)

lemma handleevent_running:
  assumes "running st" and "\<bar>lastupdate (calib st)\<bar> < 2 ^ 63"
    and "etype event = 0 \<or> etype event = 1"
  shows "\<exists>c. handleevent st event wall clocks =
     Inr (st\<lparr>calib := c, stdout := stdout st
            @ header (if etype event = 0 then ''OUTPUT'' else ''INPUT'') event
                (uint (rawtime event) + clockoffset (calib st)) @ ''\<newline>''
            @ bytes_repr (payload event) @ ''\<newline>''\<rparr>)"
proof -
  obtain c where "calibratetime (calib st) (uint (rawtime event)) wall clocks
      = Inr (uint (rawtime event) + clockoffset (calib st), c)"
    using calibratetime_63 [OF assms(2)] by blast
  then have "handleevent st event wall clocks =
     Inr (st\<lparr>calib := c, stdout := stdout st
            @ header (if etype event = 0 then ''OUTPUT'' else ''INPUT'') event
                (uint (rawtime event) + clockoffset (calib st)) @ ''\<newline>''
            @ bytes_repr (payload event) @ ''\<newline>''\<rparr>)"
    using assms(1) by (simp add: handleevent_def printevent_valid [OF assms(3)])
  then show ?thesis by (rule exI)
qed

lemma handleevent_stopped: "\<not> running st \<Longrightarrow> handleevent st event wall clocks = Inr st"
  by (simp add: handleevent_def)


text \<open>Facts for running the definitions on concrete records.\<close>

lemma str_int_values:
  "str_int 4242 = ''4242''" "str_int 7 = ''7''" "str_int 3 = ''3''"
  "str_int 18219251269639 = ''18219251269639''"
  "str_int 2000 = ''2000''" "str_int 1000 = ''1000''" "str_int 1 = ''1''"
  "str_int 5 = ''5''" "str_int 2 = ''2''"
  by (simp_all add: str_int_def str_nat.simps)

lemma nul_tail:
  "replicate 12 (CHR 0x00) = CHR 0x00 # replicate 11 (CHR 0x00)"
  "replicate 4093 (CHR 0x00) = CHR 0x00 # replicate 4092 (CHR 0x00)"
  by (simp_all add: replicate_Suc [symmetric])

text \<open>
  C7. For every record processed while the program is running (direction \<open>0\<close> or \<open>1\<close>,
  last calibration within 64-bit range), the callback appends exactly two lines to the
  output: a header with the fields in the order DIRECTION, pid, tid, time, rawtime, cgid,
  inode, pidtgid, nsid, comm, len, where DIRECTION is \<^verbatim>\<open>OUTPUT\<close> or \<^verbatim>\<open>INPUT\<close>, \<^verbatim>\<open>time\<close> is
  the calibrated time and \<^verbatim>\<open>rawtime\<close> the monotonic value of the record, and then the
  escaped payload. Neither line holds a newline character of its own.
\<close>

theorem two_line_format:
  assumes "running st" and "\<bar>lastupdate (calib st)\<bar> < 2 ^ 63"
    and "etype event = 0 \<or> etype event = 1"
  shows "\<exists>c direction head body.
      direction = (if etype event = 0 then ''OUTPUT'' else ''INPUT'')
    \<and> head = ''<'' @ direction
         @ '' pid='' @ str_int (drop_bit 32 (uint (pidtgid event)))
         @ '' tid='' @ str_int (uint (pidtgid event) AND 0xFFFFFFFF)
         @ '' time='' @ str_int (uint (rawtime event) + clockoffset (calib st))
         @ '' rawtime='' @ str_int (uint (rawtime event))
         @ '' cgid='' @ str_int (uint (cgid event))
         @ '' inode='' @ str_int (uint (inode event))
         @ '' pidtgid='' @ str_int (uint (pidtgid event))
         @ '' nsid='' @ str_int (uint (nsid event))
         @ '' comm='' @ bytes_repr (char_array_get (comm event))
         @ '' len='' @ str_int (uint (len event))
         @ ''>''
    \<and> body = bytes_repr (payload event)
    \<and> CHR 0x0A \<notin> set head \<and> CHR 0x0A \<notin> set body
    \<and> handleevent st event wall clocks =
        Inr (st\<lparr>calib := c, stdout := stdout st @ head @ ''\<newline>'' @ body @ ''\<newline>''\<rparr>)"
proof -
  let ?d = "if etype event = 0 then ''OUTPUT'' else ''INPUT''"
  let ?t = "uint (rawtime event) + clockoffset (calib st)"
  from handleevent_running [OF assms] obtain c where run:
    "handleevent st event wall clocks =
       Inr (st\<lparr>calib := c, stdout := stdout st @ header ?d event ?t @ ''\<newline>''
            @ bytes_repr (payload event) @ ''\<newline>''\<rparr>)"
    by blast
  have d: "CHR 0x0A \<notin> set ?d" by simp
  have h: "CHR 0x0A \<notin> set (header ?d event ?t)" by (rule header_no_newline [OF d])
  have b: "CHR 0x0A \<notin> set (bytes_repr (payload event))" by (rule bytes_repr_no_newline)
  have eq: "header ?d event ?t = ''<'' @ ?d
         @ '' pid='' @ str_int (drop_bit 32 (uint (pidtgid event)))
         @ '' tid='' @ str_int (uint (pidtgid event) AND 0xFFFFFFFF)
         @ '' time='' @ str_int ?t
         @ '' rawtime='' @ str_int (uint (rawtime event))
         @ '' cgid='' @ str_int (uint (cgid event))
         @ '' inode='' @ str_int (uint (inode event))
         @ '' pidtgid='' @ str_int (uint (pidtgid event))
         @ '' nsid='' @ str_int (uint (nsid event))
         @ '' comm='' @ bytes_repr (char_array_get (comm event))
         @ '' len='' @ str_int (uint (len event))
         @ ''>''"
    by (simp only: header_def event_pid_def event_tid_def)
  show ?thesis
    apply (rule exI [of _ c], rule exI [of _ ?d], rule exI [of _ "header ?d event ?t"],
        rule exI [of _ "bytes_repr (payload event)"])
    using run h b eq by simp
qed


text \<open>A run of the theorem: an \<^verbatim>\<open>ls\<close> typed by \<^verbatim>\<open>bash\<close>.\<close>

theorem two_line_format_witness:
  "running \<lparr>running = True, calib = \<lparr>clockoffset = 1000, lastupdate = 2000, recalibrations = 0\<rparr>,
            stdout = []\<rparr>
   \<and> (\<exists>c. handleevent
        \<lparr>running = True, calib = \<lparr>clockoffset = 1000, lastupdate = 2000, recalibrations = 0\<rparr>,
         stdout = []\<rparr>
        \<lparr>rawtime = 1000, cgid = 1, inode = 5, pidtgid = 18219251269639, nsid = 2,
         comm = ''bash'' @ replicate 12 (CHR 0x00),
         buf = ''ls\<newline>'' @ replicate 4093 (CHR 0x00), len = 3, etype = 0\<rparr>
        3000 (3000, 2000)
      = Inr \<lparr>running = True, calib = c,
             stdout = ''<OUTPUT pid=4242 tid=7 time=2000 rawtime=1000 cgid=1 inode=5 ''
               @ ''pidtgid=18219251269639 nsid=2 comm=b'bash' len=3>'' @ ''\<newline>''
               @ [CHR ''b'', CHR 0x27, CHR ''l'', CHR ''s'', CHR 0x5C, CHR ''n'', CHR 0x27]
               @ ''\<newline>''\<rparr>)"
  using two_line_format [of
      "\<lparr>running = True, calib = \<lparr>clockoffset = 1000, lastupdate = 2000, recalibrations = 0\<rparr>,
        stdout = []\<rparr>"
      "\<lparr>rawtime = 1000, cgid = 1, inode = 5, pidtgid = 18219251269639, nsid = 2,
         comm = ''bash'' @ replicate 12 (CHR 0x00),
         buf = ''ls\<newline>'' @ replicate 4093 (CHR 0x00), len = 3, etype = 0\<rparr>"
      3000 "(3000, 2000)"]
  unfolding nul_tail
  by (simp add: print_defs str_int_values)

text \<open>
  C1. The claim: a record whose inode equals the exclusion inode resolved at startup is
  discarded before calibration and never reaches the formatter.

  As amended: the program resolves no exclusion inode and filters nothing by inode. While
  \<^verbatim>\<open>running\<close> is set, every record with a valid direction, whatever its inode and
  payload, is calibrated and passed to the formatter, whose text is appended to the
  output; once \<^verbatim>\<open>running\<close> is cleared, every record is skipped before calibration.
\<close>

theorem no_self_exclusion:
  "(running st \<and> \<bar>lastupdate (calib st)\<bar> < 2 ^ 63 \<and> (etype event = 0 \<or> etype event = 1) \<longrightarrow>
      (\<exists>c text. printevent event (uint (rawtime event) + clockoffset (calib st)) = Inr text
         \<and> text \<noteq> []
         \<and> handleevent st event wall clocks
             = Inr (st\<lparr>calib := c, stdout := stdout st @ text\<rparr>)))
   \<and> (\<not> running st \<longrightarrow> handleevent st event wall clocks = Inr st)"
proof (intro conjI impI)
  assume a: "running st \<and> \<bar>lastupdate (calib st)\<bar> < 2 ^ 63 \<and> (etype event = 0 \<or> etype event = 1)"
  let ?t = "uint (rawtime event) + clockoffset (calib st)"
  from a have v: "etype event = 0 \<or> etype event = 1" by simp
  from a handleevent_running [of st event wall clocks] obtain c where
    "handleevent st event wall clocks =
       Inr (st\<lparr>calib := c, stdout := stdout st
            @ header (if etype event = 0 then ''OUTPUT'' else ''INPUT'') event ?t @ ''\<newline>''
            @ bytes_repr (payload event) @ ''\<newline>''\<rparr>)"
    by blast
  then show "\<exists>c text. printevent event ?t = Inr text \<and> text \<noteq> []
         \<and> handleevent st event wall clocks = Inr (st\<lparr>calib := c, stdout := stdout st @ text\<rparr>)"
    using printevent_valid [OF v, of ?t] by auto
next
  assume "\<not> running st"
  then show "handleevent st event wall clocks = Inr st" by (rule handleevent_stopped)
qed

text \<open>A run of the theorem, with \<^verbatim>\<open>running\<close> set and with \<^verbatim>\<open>running\<close> cleared.\<close>

theorem no_self_exclusion_witness:
  "(\<exists>c. handleevent
        \<lparr>running = True, calib = \<lparr>clockoffset = 1000, lastupdate = 2000, recalibrations = 0\<rparr>,
         stdout = []\<rparr>
        \<lparr>rawtime = 1000, cgid = 1, inode = 5, pidtgid = 18219251269639, nsid = 2,
         comm = ''bash'' @ replicate 12 (CHR 0x00),
         buf = ''ls\<newline>'' @ replicate 4093 (CHR 0x00), len = 3, etype = 0\<rparr>
        3000 (3000, 2000)
      = Inr \<lparr>running = True, calib = c,
             stdout = ''<OUTPUT pid=4242 tid=7 time=2000 rawtime=1000 cgid=1 inode=5 ''
               @ ''pidtgid=18219251269639 nsid=2 comm=b'bash' len=3>'' @ ''\<newline>''
               @ [CHR ''b'', CHR 0x27, CHR ''l'', CHR ''s'', CHR 0x5C, CHR ''n'', CHR 0x27]
               @ ''\<newline>''\<rparr>)
   \<and> handleevent
        \<lparr>running = False, calib = \<lparr>clockoffset = 1000, lastupdate = 2000, recalibrations = 0\<rparr>,
         stdout = []\<rparr>
        \<lparr>rawtime = 1000, cgid = 1, inode = 5, pidtgid = 18219251269639, nsid = 2,
         comm = ''bash'' @ replicate 12 (CHR 0x00),
         buf = ''ls\<newline>'' @ replicate 4093 (CHR 0x00), len = 3, etype = 0\<rparr>
        3000 (3000, 2000)
      = Inr \<lparr>running = False,
             calib = \<lparr>clockoffset = 1000, lastupdate = 2000, recalibrations = 0\<rparr>, stdout = []\<rparr>"
  using no_self_exclusion [of
      "\<lparr>running = True, calib = \<lparr>clockoffset = 1000, lastupdate = 2000, recalibrations = 0\<rparr>,
        stdout = []\<rparr>"
      "\<lparr>rawtime = 1000, cgid = 1, inode = 5, pidtgid = 18219251269639, nsid = 2,
         comm = ''bash'' @ replicate 12 (CHR 0x00),
         buf = ''ls\<newline>'' @ replicate 4093 (CHR 0x00), len = 3, etype = 0\<rparr>"
      3000 "(3000, 2000)"]
    no_self_exclusion [of
      "\<lparr>running = False, calib = \<lparr>clockoffset = 1000, lastupdate = 2000, recalibrations = 0\<rparr>,
        stdout = []\<rparr>"
      "\<lparr>rawtime = 1000, cgid = 1, inode = 5, pidtgid = 18219251269639, nsid = 2,
         comm = ''bash'' @ replicate 12 (CHR 0x00),
         buf = ''ls\<newline>'' @ replicate 4093 (CHR 0x00), len = 3, etype = 0\<rparr>"
      3000 "(3000, 2000)"]
  unfolding nul_tail
  by (simp add: print_defs str_int_values)

text \<open>
  The claim as stated fails: whichever inode the output device has, here 5, a record with
  that inode is printed like any other.
\<close>

theorem self_exclusion_counterexample:
  "inode \<lparr>rawtime = 1000, cgid = 1, inode = 5, pidtgid = 18219251269639, nsid = 2,
         comm = ''bash'' @ replicate 12 (CHR 0x00),
         buf = ''ls\<newline>'' @ replicate 4093 (CHR 0x00), len = 3, etype = 0\<rparr> = 5
   \<and> handleevent
        \<lparr>running = True, calib = \<lparr>clockoffset = 1000, lastupdate = 2000, recalibrations = 0\<rparr>,
         stdout = []\<rparr>
        \<lparr>rawtime = 1000, cgid = 1, inode = 5, pidtgid = 18219251269639, nsid = 2,
         comm = ''bash'' @ replicate 12 (CHR 0x00),
         buf = ''ls\<newline>'' @ replicate 4093 (CHR 0x00), len = 3, etype = 0\<rparr>
        3000 (3000, 2000)
      = Inr \<lparr>running = True,
             calib = \<lparr>clockoffset = 1000, lastupdate = 2000, recalibrations = 0\<rparr>,
             stdout = ''<OUTPUT pid=4242 tid=7 time=2000 rawtime=1000 cgid=1 inode=5 ''
               @ ''pidtgid=18219251269639 nsid=2 comm=b'bash' len=3>'' @ ''\<newline>''
               @ [CHR ''b'', CHR 0x27, CHR ''l'', CHR ''s'', CHR 0x5C, CHR ''n'', CHR 0x27]
               @ ''\<newline>''\<rparr>"
  unfolding nul_tail
  by (simp add: handleevent_def calibratetime_small print_defs str_int_values)

subsection \<open>The payload\<close>

text \<open>
  C2. The claim: the rendering uses exactly \<^verbatim>\<open>len\<close> bytes of the payload and never scans
  for a terminator, also when the payload holds NUL bytes. The program slices
  \<^verbatim>\<open>event.buf[:event.len]\<close>, but reading \<^verbatim>\<open>event.buf\<close> already stops at the first NUL:
  for the three bytes \<^verbatim>\<open>a\<close>, NUL, \<^verbatim>\<open>b\<close> written to a terminal (\<^verbatim>\<open>len = 3\<close>, the buffer of
  4096 bytes), the rendered payload is \<^verbatim>\<open>b'a'\<close>, where the first three bytes of the
  buffer render as \<^verbatim>\<open>b'a\x00b'\<close>.
\<close>

theorem payload_stops_at_nul:
  "length (buf \<lparr>rawtime = 1000, cgid = 1, inode = 5, pidtgid = 18219251269639, nsid = 2,
         comm = ''cat'' @ replicate 13 (CHR 0x00),
         buf = ''a'' @ CHR 0x00 # ''b'' @ replicate 4093 (CHR 0x00), len = 3, etype = 0\<rparr>) = 4096
   \<and> payload \<lparr>rawtime = 1000, cgid = 1, inode = 5, pidtgid = 18219251269639, nsid = 2,
         comm = ''cat'' @ replicate 13 (CHR 0x00),
         buf = ''a'' @ CHR 0x00 # ''b'' @ replicate 4093 (CHR 0x00), len = 3, etype = 0\<rparr> = ''a''
   \<and> bytes_repr (payload \<lparr>rawtime = 1000, cgid = 1, inode = 5, pidtgid = 18219251269639, nsid = 2,
         comm = ''cat'' @ replicate 13 (CHR 0x00),
         buf = ''a'' @ CHR 0x00 # ''b'' @ replicate 4093 (CHR 0x00), len = 3, etype = 0\<rparr>)
       = [CHR ''b'', CHR 0x27, CHR ''a'', CHR 0x27]
   \<and> bytes_repr (take 3 (''a'' @ CHR 0x00 # ''b'' @ replicate 4093 (CHR 0x00)))
       = [CHR ''b'', CHR 0x27, CHR ''a'', CHR 0x5C, CHR ''x'', CHR ''0'', CHR ''0'', CHR ''b'', CHR 0x27]"
  by (simp add: print_defs)

subsection \<open>The end-to-end scenario\<close>

text \<open>
  C8. The claim: a record with direction OUTPUT, \<^verbatim>\<open>pidtgid = (4242<<32)|7\<close>, command
  \<^verbatim>\<open>bash\<close>, payload \<^verbatim>\<open>ls\n\<close> and length 3 gives one header line containing
  \<^verbatim>\<open>OUTPUT pid=4242 tid=7 ... comm=bash len=3\<close> and then the escaped payload.

  As amended: the header line is
  \<^verbatim>\<open><OUTPUT pid=4242 tid=7 time=T rawtime=R cgid=G inode=I pidtgid=18219251269639 nsid=N comm=b'bash' len=3>\<close>
  whatever the other fields are, the command name being rendered as the Python bytes
  literal \<^verbatim>\<open>b'bash'\<close>; the second line is \<^verbatim>\<open>b'ls\n'\<close> with the newline escaped as a
  backslash and an \<^verbatim>\<open>n\<close>.
\<close>

theorem end_to_end_output_record:
  "printevent \<lparr>rawtime = r, cgid = g, inode = i, pidtgid = 18219251269639, nsid = n,
       comm = ''bash'' @ CHR 0x00 # crest, buf = ''ls\<newline>'' @ brest, len = 3, etype = 0\<rparr> t
   = Inr (''<OUTPUT pid=4242 tid=7 time='' @ str_int t @ '' rawtime='' @ str_int (uint r)
          @ '' cgid='' @ str_int (uint g) @ '' inode='' @ str_int (uint i)
          @ '' pidtgid=18219251269639 nsid='' @ str_int (uint n)
          @ '' comm=b'bash' len=3>'' @ ''\<newline>''
          @ [CHR ''b'', CHR 0x27, CHR ''l'', CHR ''s'', CHR 0x5C, CHR ''n'', CHR 0x27]
          @ ''\<newline>'')
   \<and> 18219251269639 = push_bit 32 4242 OR (7 :: int)"
  by (simp add: print_defs str_int_values)

text \<open>
  The claim as stated fails: the text \<^verbatim>\<open>comm=bash len=3\<close> occurs nowhere in the output for
  such a record.
\<close>

theorem end_to_end_counterexample:
  "printevent \<lparr>rawtime = 1000, cgid = 1, inode = 5, pidtgid = 18219251269639, nsid = 2,
       comm = ''bash'' @ replicate 12 (CHR 0x00),
       buf = ''ls\<newline>'' @ replicate 4093 (CHR 0x00), len = 3, etype = 0\<rparr> 2000
   = Inr (''<OUTPUT pid=4242 tid=7 time=2000 rawtime=1000 cgid=1 inode=5 ''
          @ ''pidtgid=18219251269639 nsid=2 comm=b'bash' len=3>'' @ ''\<newline>''
          @ [CHR ''b'', CHR 0x27, CHR ''l'', CHR ''s'', CHR 0x5C, CHR ''n'', CHR 0x27]
          @ ''\<newline>'')
   \<and> \<not> sublist ''comm=bash len=3''
         (''<OUTPUT pid=4242 tid=7 time=2000 rawtime=1000 cgid=1 inode=5 ''
          @ ''pidtgid=18219251269639 nsid=2 comm=b'bash' len=3>'' @ ''\<newline>''
          @ [CHR ''b'', CHR 0x27, CHR ''l'', CHR ''s'', CHR 0x5C, CHR ''n'', CHR 0x27]
          @ ''\<newline>'')"
proof -
  have a: "printevent \<lparr>rawtime = 1000, cgid = 1, inode = 5, pidtgid = 18219251269639, nsid = 2,
       comm = ''bash'' @ replicate 12 (CHR 0x00),
       buf = ''ls\<newline>'' @ replicate 4093 (CHR 0x00), len = 3, etype = 0\<rparr> 2000
   = Inr (''<OUTPUT pid=4242 tid=7 time=2000 rawtime=1000 cgid=1 inode=5 ''
          @ ''pidtgid=18219251269639 nsid=2 comm=b'bash' len=3>'' @ ''\<newline>''
          @ [CHR ''b'', CHR 0x27, CHR ''l'', CHR ''s'', CHR 0x5C, CHR ''n'', CHR 0x27]
          @ ''\<newline>'')"
    unfolding nul_tail by (simp add: print_defs str_int_values)
  have b: "\<not> sublist ''comm=bash len=3''
         (''<OUTPUT pid=4242 tid=7 time=2000 rawtime=1000 cgid=1 inode=5 ''
          @ ''pidtgid=18219251269639 nsid=2 comm=b'bash' len=3>'' @ ''\<newline>''
          @ [CHR ''b'', CHR 0x27, CHR ''l'', CHR ''s'', CHR 0x5C, CHR ''n'', CHR 0x27]
          @ ''\<newline>'')"
    by (simp add: sublist_code)
  show ?thesis using a b by blast
qed

subsection \<open>Termination requests\<close>

lemma handleinterrupt_simps:
  "running (handleinterrupt s) = False" "calib (handleinterrupt s) = calib s"
  "stdout (handleinterrupt s) = stdout s"
  by (simp_all add: handleinterrupt_def)

lemma run_handler_append:
  "run_handler data now clocks (xs @ ys) cfg
     = run_handler data now clocks ys (run_handler data now clocks xs cfg)"
proof (induction xs arbitrary: cfg)
  case Nil
  show ?case by simp
next
  case (Cons a xs)
  obtain st k where cfg: "cfg = (st, k)" by (cases cfg)
  show ?case by (cases a) (simp_all add: cfg Cons.IH)
qed

lemma run_Returned:
  "run_handler data now clocks as (st, Returned) = (st', k) \<Longrightarrow>
   k = Returned \<and> stdout st' = stdout st \<and> calib st' = calib st
   \<and> running st' = (running st \<and> Signal \<notin> set as)"
proof (induction as arbitrary: st)
  case Nil
  then show ?case by simp
next
  case (Cons a as)
  show ?case
  proof (cases a)
    case Line
    with Cons.prems Cons.IH [of st] show ?thesis by simp
  next
    case Signal
    with Cons.prems Cons.IH [of "handleinterrupt st"] show ?thesis
      by (simp add: handleinterrupt_simps)
  qed
qed

lemma run_At260:
  assumes "printevent event t = Inr text"
  shows "1 \<le> count_list as Line \<Longrightarrow>
   run_handler data now clocks as (st, At260 event t) = (st', k) \<Longrightarrow>
   k = Returned \<and> stdout st' = stdout st @ text \<and> calib st' = calib st
   \<and> running st' = (running st \<and> Signal \<notin> set as)"
proof (induction as arbitrary: st)
  case Nil
  then show ?case by simp
next
  case (Cons a as)
  show ?case
  proof (cases a)
    case Line
    with Cons.prems(2) assms
    have "run_handler data now clocks as (st\<lparr>stdout := stdout st @ text\<rparr>, Returned) = (st', k)"
      by simp
    from run_Returned [OF this] Line show ?thesis by simp
  next
    case Signal
    with Cons.prems Cons.IH [of "handleinterrupt st"] show ?thesis
      by (simp add: handleinterrupt_simps)
  qed
qed

lemma run_At259:
  assumes "calibratetime (calib st) raw w clocks = Inr (t, c)"
    and "printevent event t = Inr text"
  shows "2 \<le> count_list as Line \<Longrightarrow> calib st = calib st0 \<Longrightarrow>
   run_handler data now clocks as (st0, At259 w event raw) = (st', k) \<Longrightarrow>
   k = Returned \<and> stdout st' = stdout st0 @ text \<and> calib st' = c
   \<and> running st' = (running st0 \<and> Signal \<notin> set as)"
proof (induction as arbitrary: st0)
  case Nil
  then show ?case by simp
next
  case (Cons a as)
  show ?case
  proof (cases a)
    case Line
    with Cons.prems assms(1)
    have run: "run_handler data now clocks as (st0\<lparr>calib := c\<rparr>, At260 event t) = (st', k)"
      and cnt: "1 \<le> count_list as Line"
      by simp_all
    from run_At260 [OF assms(2) cnt run] Line show ?thesis by simp
  next
    case Signal
    with Cons.prems Cons.IH [of "handleinterrupt st0"] show ?thesis
      by (simp add: handleinterrupt_simps)
  qed
qed

lemma run_At258:
  assumes "calibratetime (calib st) (uint (rawtime event)) w clocks = Inr (t, c)"
    and "printevent event t = Inr text"
  shows "3 \<le> count_list as Line \<Longrightarrow> calib st = calib st0 \<Longrightarrow>
   run_handler data now clocks as (st0, At258 w event) = (st', k) \<Longrightarrow>
   k = Returned \<and> stdout st' = stdout st0 @ text \<and> calib st' = c
   \<and> running st' = (running st0 \<and> Signal \<notin> set as)"
proof (induction as arbitrary: st0)
  case Nil
  then show ?case by simp
next
  case (Cons a as)
  show ?case
  proof (cases a)
    case Line
    with Cons.prems
    have run: "run_handler data now clocks as (st0, At259 w event (uint (rawtime event))) = (st', k)"
      and cnt: "2 \<le> count_list as Line"
      by simp_all
    from run_At259 [OF assms cnt Cons.prems(2) run] Line show ?thesis by simp
  next
    case Signal
    with Cons.prems Cons.IH [of "handleinterrupt st0"] show ?thesis
      by (simp add: handleinterrupt_simps)
  qed
qed

lemma run_handler_uninterrupted:
  "run_handler data now clocks [Line, Line, Line, Line, Line, Line] (st, At255)
     = (case handleevent st data now clocks of
          Inr st' \<Rightarrow> (st', Returned)
        | Inl (e, st') \<Rightarrow> (st', Raised e))"
  by (simp add: handleevent_def split: sum.splits prod.splits)


text \<open>
  C9. Two termination requests in immediate succession act as one: the handler is
  idempotent, it changes nothing but \<^verbatim>\<open>running\<close>, and a schedule with two adjacent signals
  ends in the same state as the schedule with one. A record that is already decoded
  (the callback is past line 257) when the requests arrive is printed exactly once,
  wherever the signals fall between the remaining lines; and after a request every
  further record is skipped, so nothing more is written.
\<close>

theorem shutdown_idempotent:
  "handleinterrupt (handleinterrupt s) = handleinterrupt s
   \<and> \<not> running (handleinterrupt s)
   \<and> calib (handleinterrupt s) = calib s \<and> stdout (handleinterrupt s) = stdout s
   \<and> run_handler data now clocks (xs @ Signal # Signal # ys) cfg
       = run_handler data now clocks (xs @ Signal # ys) cfg
   \<and> (calibratetime (calib s) (uint (rawtime event)) w clocks = Inr (t, c)
        \<and> printevent event t = Inr printed \<and> 3 \<le> count_list sched Line \<longrightarrow>
       (\<exists>s'. run_handler data now clocks sched (s, At258 w event) = (s', Returned)
          \<and> stdout s' = stdout s @ printed \<and> calib s' = c
          \<and> running s' = (running s \<and> Signal \<notin> set sched)))
   \<and> handleevent (handleinterrupt s) event2 w2 clocks2 = Inr (handleinterrupt s)"
proof -
  have idem: "handleinterrupt (handleinterrupt s) = handleinterrupt s"
    by (simp add: handleinterrupt_def)
  have twice: "run_handler data now clocks (xs @ Signal # Signal # ys) cfg
       = run_handler data now clocks (xs @ Signal # ys) cfg"
  proof -
    obtain st k where "run_handler data now clocks xs cfg = (st, k)"
      by (cases "run_handler data now clocks xs cfg")
    then show ?thesis by (simp add: run_handler_append handleinterrupt_def)
  qed
  have inflight: "\<exists>s'. run_handler data now clocks sched (s, At258 w event) = (s', Returned)
          \<and> stdout s' = stdout s @ printed \<and> calib s' = c
          \<and> running s' = (running s \<and> Signal \<notin> set sched)"
    if cal: "calibratetime (calib s) (uint (rawtime event)) w clocks = Inr (t, c)"
      and pr: "printevent event t = Inr printed" and cnt: "3 \<le> count_list sched Line"
  proof -
    obtain s' k where run: "run_handler data now clocks sched (s, At258 w event) = (s', k)"
      by (cases "run_handler data now clocks sched (s, At258 w event)")
    from run_At258 [OF cal pr cnt refl run] run show ?thesis by auto
  qed
  have after: "handleevent (handleinterrupt s) event2 w2 clocks2 = Inr (handleinterrupt s)"
    by (simp add: handleevent_def handleinterrupt_def)
  show ?thesis
    using idem twice inflight after by (simp add: handleinterrupt_simps)
qed


text \<open>A run of the theorem: three signals between the remaining lines of the callback.\<close>

theorem shutdown_idempotent_witness:
  "\<exists>s'. run_handler
        \<lparr>rawtime = 1000, cgid = 1, inode = 5, pidtgid = 18219251269639, nsid = 2,
         comm = ''bash'' @ replicate 12 (CHR 0x00),
         buf = ''ls\<newline>'' @ replicate 4093 (CHR 0x00), len = 3, etype = 0\<rparr>
        3000 (3000, 2000) [Signal, Line, Signal, Signal, Line, Line]
        (\<lparr>running = True, calib = \<lparr>clockoffset = 1000, lastupdate = 2000, recalibrations = 0\<rparr>,
          stdout = []\<rparr>,
         At258 3000
           \<lparr>rawtime = 1000, cgid = 1, inode = 5, pidtgid = 18219251269639, nsid = 2,
            comm = ''bash'' @ replicate 12 (CHR 0x00),
            buf = ''ls\<newline>'' @ replicate 4093 (CHR 0x00), len = 3, etype = 0\<rparr>)
      = (s', Returned)
    \<and> stdout s' = ''<OUTPUT pid=4242 tid=7 time=2000 rawtime=1000 cgid=1 inode=5 ''
               @ ''pidtgid=18219251269639 nsid=2 comm=b'bash' len=3>'' @ ''\<newline>''
               @ [CHR ''b'', CHR 0x27, CHR ''l'', CHR ''s'', CHR 0x5C, CHR ''n'', CHR 0x27]
               @ ''\<newline>''
    \<and> \<not> running s'"
proof -
  let ?e = "\<lparr>rawtime = 1000, cgid = 1, inode = 5, pidtgid = 18219251269639, nsid = 2,
         comm = ''bash'' @ replicate 12 (CHR 0x00),
         buf = ''ls\<newline>'' @ replicate 4093 (CHR 0x00), len = 3, etype = 0\<rparr>"
  let ?c = "\<lparr>clockoffset = 1000, lastupdate = 2000, recalibrations = 0\<rparr>"
  let ?s = "\<lparr>running = True, calib = ?c, stdout = []\<rparr>"
  let ?text = "''<OUTPUT pid=4242 tid=7 time=2000 rawtime=1000 cgid=1 inode=5 ''
               @ ''pidtgid=18219251269639 nsid=2 comm=b'bash' len=3>'' @ ''\<newline>''
               @ [CHR ''b'', CHR 0x27, CHR ''l'', CHR ''s'', CHR 0x5C, CHR ''n'', CHR 0x27]
               @ ''\<newline>''"
  let ?as = "[Signal, Line, Signal, Signal, Line, Line]"
  have cal: "calibratetime (calib ?s) (uint (rawtime ?e)) 3000 (3000, 2000) = Inr (2000, ?c)"
    by (simp add: calibratetime_small)
  have pr: "printevent ?e 2000 = Inr ?text"
    unfolding nul_tail by (simp add: print_defs str_int_values)
  have cnt: "3 \<le> count_list ?as Line" by simp
  from shutdown_idempotent [where s = ?s and event = ?e and w = 3000 and clocks = "(3000, 2000)"
      and t = 2000 and c = ?c and printed = ?text and sched = ?as and data = ?e and now = 3000]
    cal pr cnt
  show ?thesis by auto
qed


subsection \<open>The records the probes submit\<close>

lemma size_tty_write:
  fixes cnt :: "64 word"
  assumes "cnt \<noteq> 0"
  shows "1 \<le> uint (ucast (if cnt < PAGE_SIZE - 1 then cnt else PAGE_SIZE - 1) :: 32 word)
       \<and> uint (ucast (if cnt < PAGE_SIZE - 1 then cnt else PAGE_SIZE - 1) :: 32 word) \<le> 4095"
proof (cases "cnt < PAGE_SIZE - 1")
  case True
  then have lt: "uint cnt < 4095" by (simp add: PAGE_SIZE_def word_less_def)
  have pos: "0 < uint cnt" using assms by (simp add: word_neq_0_conv word_less_def)
  have "uint (ucast cnt :: 32 word) = take_bit 32 (uint cnt)" by (simp add: unsigned_ucast_eq)
  also have "\<dots> = uint cnt"
    using lt by (intro take_bit_int_eq_self) simp_all
  finally show ?thesis using True lt pos by simp
next
  case False
  then show ?thesis by (simp add: PAGE_SIZE_def)
qed

lemma size_receive_buf:
  fixes cnt :: "32 word"
  shows "uint (ucast (if (scast cnt :: 64 word) < PAGE_SIZE - 1 then scast cnt
                      else PAGE_SIZE - 1) :: 32 word) \<le> 4095"
proof (cases "(scast cnt :: 64 word) < PAGE_SIZE - 1")
  case True
  let ?w = "scast cnt :: 64 word"
  from True have lt: "uint ?w < 4095" by (simp add: PAGE_SIZE_def word_less_def)
  have "uint (ucast ?w :: 32 word) = take_bit 32 (uint ?w)" by (simp add: unsigned_ucast_eq)
  also have "\<dots> = uint ?w"
    using lt by (intro take_bit_int_eq_self) simp_all
  finally show ?thesis using True lt by simp
next
  case False
  then show ?thesis by (simp add: PAGE_SIZE_def)
qed

lemma printevent_probe:
  "etype ev = INPUT \<or> etype ev = OUTPUT \<Longrightarrow>
   list_getitem EVENT_TYPES (sint (etype ev)) = Inr (if etype ev = INPUT then ''INPUT'' else ''OUTPUT'')
   \<and> (\<exists>text. printevent ev t = Inr text)"
  by (auto simp: printevent_def list_getitem_def EVENT_TYPES_def INPUT_def OUTPUT_def)

lemma length_copy_bytes: "n \<le> length dst \<Longrightarrow> length (copy_bytes dst n src) = length dst"
  by (simp add: copy_bytes_def)

lemma scast_size_less:
  fixes size :: "32 word"
  assumes "uint size \<le> 4095"
  shows "(scast size :: 64 word) < PAGE_SIZE"
proof -
  have nonneg: "0 \<le> uint size" by simp
  have "sint size = signed_take_bit 31 (uint size)" by (simp add: sint_uint)
  also have "\<dots> = uint size"
  proof (rule signed_take_bit_int_eq_self)
    have "- (2 ^ 31) \<le> (0::int)" by simp
    then show "- (2 ^ 31) \<le> uint size" using nonneg by (rule order_trans)
    show "uint size < 2 ^ 31" using assms by simp
  qed
  finally have s: "sint size = uint size" .
  have "uint (scast size :: 64 word) = take_bit 64 (uint size)"
    by (simp add: scast_eq s uint_word_of_int_eq unsigned_ucast_eq)
  also have "\<dots> = uint size"
    using assms nonneg by (intro take_bit_int_eq_self) simp_all
  finally show ?thesis using assms by (simp add: word_less_def PAGE_SIZE_def)
qed

lemma terminated_buf:
  assumes "n < length dst"
  shows "length ((copy_bytes dst n src)[n := c]) = length dst"
    and "(copy_bytes dst n src)[n := c] ! n = c"
  using assms by (simp_all add: copy_bytes_def)


lemma tty_write_Some:
  assumes sub: "kprobe__tty_write task from i_ino reserved user_mem = Some ev"
  shows "\<exists>data src cnt. reserved = Some data \<and> cnt \<noteq> 0
      \<and> len ev = ucast (if cnt < PAGE_SIZE - 1 then cnt else PAGE_SIZE - 1)
      \<and> etype ev = INPUT
      \<and> buf ev = (if (scast (len ev) :: 64 word) < PAGE_SIZE
                  then (copy_bytes (buf data) (unat (len ev)) src)[unat (len ev) := CHR 0x00]
                  else copy_bytes (buf data) (unat (len ev)) src)"
proof -
  define cnt where "cnt = (if iter_type from = ITER_IOVEC then iov_len from else count from)"
  define size :: "32 word"
    where "size = ucast (if cnt < PAGE_SIZE - 1 then cnt else PAGE_SIZE - 1)"
  have kind: "iter_type from = ITER_IOVEC \<or> iter_type from = ITER_UBUF"
    using sub by (simp add: kprobe__tty_write_def split: if_splits)
  have nz: "cnt \<noteq> 0"
    using sub kind by (auto simp: kprobe__tty_write_def cnt_def split: if_splits)
  obtain data where res: "reserved = Some data"
    using sub kind by (cases reserved) (auto simp: kprobe__tty_write_def split: if_splits)
  obtain bytes where mem: "user_mem = Some bytes"
    using sub kind res
    by (cases user_mem) (auto simp: kprobe__tty_write_def Let_def split: if_splits)
  have l: "len ev = size"
    using sub kind res mem
    by (auto simp: kprobe__tty_write_def Let_def size_def cnt_def split: if_splits)
  have e: "etype ev = INPUT"
    using sub kind res mem
    by (auto simp: kprobe__tty_write_def Let_def split: if_splits)
  have b: "buf ev = (if (scast size :: 64 word) < PAGE_SIZE
                      then (copy_bytes (buf data) (unat size) bytes)[unat size := CHR 0x00]
                      else copy_bytes (buf data) (unat size) bytes)"
    using sub kind res mem
    by (auto simp: kprobe__tty_write_def Let_def size_def cnt_def split: if_splits)
  have "reserved = Some data \<and> cnt \<noteq> 0
      \<and> len ev = ucast (if cnt < PAGE_SIZE - 1 then cnt else PAGE_SIZE - 1)
      \<and> etype ev = INPUT
      \<and> buf ev = (if (scast (len ev) :: 64 word) < PAGE_SIZE
                  then (copy_bytes (buf data) (unat (len ev)) bytes)[unat (len ev) := CHR 0x00]
                  else copy_bytes (buf data) (unat (len ev)) bytes)"
    using res nz e b by (simp only: l size_def [symmetric] simp_thms)
  then show ?thesis by blast
qed

lemma receive_buf_Some:
  assumes sub: "kprobe__n_tty_receive_buf_common task cp cnt ino reserved kernel_mem = Some ev"
  shows "\<exists>data src. reserved = Some data
      \<and> len ev = ucast (if (scast cnt :: 64 word) < PAGE_SIZE - 1 then scast cnt else PAGE_SIZE - 1)
      \<and> etype ev = OUTPUT
      \<and> buf ev = (copy_bytes (buf data) (unat (len ev)) src)[unat (len ev) := CHR 0x00]"
proof -
  define size :: "32 word"
    where "size = ucast (if (scast cnt :: 64 word) < PAGE_SIZE - 1 then scast cnt
                         else PAGE_SIZE - 1)"
  obtain data where res: "reserved = Some data"
    using sub
    by (cases reserved) (auto simp: kprobe__n_tty_receive_buf_common_def split: if_splits)
  obtain bytes where mem: "kernel_mem = Some bytes"
    using sub res
    by (cases kernel_mem)
      (auto simp: kprobe__n_tty_receive_buf_common_def Let_def split: if_splits)
  have l: "len ev = size"
    using sub res mem
    by (auto simp: kprobe__n_tty_receive_buf_common_def Let_def size_def split: if_splits)
  have e: "etype ev = OUTPUT"
    using sub res mem
    by (auto simp: kprobe__n_tty_receive_buf_common_def Let_def split: if_splits)
  have b: "buf ev = (copy_bytes (buf data) (unat size) bytes)[unat size := CHR 0x00]"
    using sub res mem
    by (auto simp: kprobe__n_tty_receive_buf_common_def Let_def size_def split: if_splits)
  have "reserved = Some data
      \<and> len ev = ucast (if (scast cnt :: 64 word) < PAGE_SIZE - 1 then scast cnt else PAGE_SIZE - 1)
      \<and> etype ev = OUTPUT
      \<and> buf ev = (copy_bytes (buf data) (unat (len ev)) bytes)[unat (len ev) := CHR 0x00]"
    using res e b by (simp only: l size_def [symmetric] simp_thms)
  then show ?thesis by blast
qed



text \<open>
  C10. Every record that either probe submits has \<^verbatim>\<open>len\<close> at most 4095 and \<^verbatim>\<open>etype\<close> 1
  (\<^verbatim>\<open>INPUT\<close>, from \<^verbatim>\<open>kprobe__tty_write\<close>, where \<^verbatim>\<open>len\<close> is at least 1) or 0 (\<^verbatim>\<open>OUTPUT\<close>, from
  \<^verbatim>\<open>kprobe__n_tty_receive_buf_common\<close>); so the index \<^verbatim>\<open>EVENT_TYPES[event.etype]\<close> is in range,
  the formatter returns its text without an exception, and, the reserved buffer being
  4096 bytes long, \<^verbatim>\<open>len\<close> lies inside the buffer, at the terminating NUL.
\<close>

theorem probe_records_printable:
  "(kprobe__tty_write task iter i_ino reserved user_mem = Some ev \<longrightarrow>
      1 \<le> uint (len ev) \<and> uint (len ev) \<le> 4095
      \<and> sint (etype ev) = 1
      \<and> list_getitem EVENT_TYPES (sint (etype ev)) = Inr ''INPUT''
      \<and> (\<exists>printed. printevent ev t = Inr printed)
      \<and> (\<forall>data. reserved = Some data \<and> length (buf data) = 4096 \<longrightarrow>
            length (buf ev) = 4096 \<and> unat (len ev) < length (buf ev)
            \<and> buf ev ! unat (len ev) = CHR 0x00))
   \<and> (kprobe__n_tty_receive_buf_common task' cp cnt ino reserved' kernel_mem = Some ev' \<longrightarrow>
      uint (len ev') \<le> 4095
      \<and> sint (etype ev') = 0
      \<and> list_getitem EVENT_TYPES (sint (etype ev')) = Inr ''OUTPUT''
      \<and> (\<exists>printed. printevent ev' t' = Inr printed)
      \<and> (\<forall>data. reserved' = Some data \<and> length (buf data) = 4096 \<longrightarrow>
            length (buf ev') = 4096 \<and> unat (len ev') < length (buf ev')
            \<and> buf ev' ! unat (len ev') = CHR 0x00))"
proof (rule conjI; rule impI)
  assume "kprobe__tty_write task iter i_ino reserved user_mem = Some ev"
  from tty_write_Some [OF this] obtain data src c where
    res: "reserved = Some data" and c: "c \<noteq> 0"
    and l: "len ev = ucast (if c < PAGE_SIZE - 1 then c else PAGE_SIZE - 1)"
    and e: "etype ev = INPUT"
    and b: "buf ev = (if (scast (len ev) :: 64 word) < PAGE_SIZE
                  then (copy_bytes (buf data) (unat (len ev)) src)[unat (len ev) := CHR 0x00]
                  else copy_bytes (buf data) (unat (len ev)) src)"
    by blast
  from size_tty_write [OF c] l have bounds: "1 \<le> uint (len ev)" "uint (len ev) \<le> 4095"
    by simp_all
  have n: "unat (len ev) \<le> 4095" using bounds(2) unfolding uint_nat by linarith
  from printevent_probe [of ev t] e
  have p: "list_getitem EVENT_TYPES (sint (etype ev)) = Inr ''INPUT''"
    "\<exists>printed. printevent ev t = Inr printed"
    by simp_all
  have t: "(scast (len ev) :: 64 word) < PAGE_SIZE" by (rule scast_size_less [OF bounds(2)])
  have mem: "\<forall>d. reserved = Some d \<and> length (buf d) = 4096 \<longrightarrow>
            length (buf ev) = 4096 \<and> unat (len ev) < length (buf ev)
            \<and> buf ev ! unat (len ev) = CHR 0x00"
  proof (intro allI impI)
    fix d assume "reserved = Some d \<and> length (buf d) = 4096"
    with res have d: "d = data" and len4096: "length (buf data) = 4096" by simp_all
    have lt: "unat (len ev) < length (buf data)" using n len4096 by simp
    from terminated_buf [OF lt, of src "CHR 0x00"] b t len4096 lt
    show "length (buf ev) = 4096 \<and> unat (len ev) < length (buf ev)
            \<and> buf ev ! unat (len ev) = CHR 0x00"
      by simp
  qed
  show "1 \<le> uint (len ev) \<and> uint (len ev) \<le> 4095
      \<and> sint (etype ev) = 1
      \<and> list_getitem EVENT_TYPES (sint (etype ev)) = Inr ''INPUT''
      \<and> (\<exists>printed. printevent ev t = Inr printed)
      \<and> (\<forall>data. reserved = Some data \<and> length (buf data) = 4096 \<longrightarrow>
            length (buf ev) = 4096 \<and> unat (len ev) < length (buf ev)
            \<and> buf ev ! unat (len ev) = CHR 0x00)"
  proof -
    have s1: "sint (etype ev) = 1" using e by (simp add: INPUT_def)
    show ?thesis using bounds s1 p mem by blast
  qed
next
  assume "kprobe__n_tty_receive_buf_common task' cp cnt ino reserved' kernel_mem = Some ev'"
  from receive_buf_Some [OF this] obtain data src where
    res: "reserved' = Some data"
    and l: "len ev' = ucast (if (scast cnt :: 64 word) < PAGE_SIZE - 1 then scast cnt
                             else PAGE_SIZE - 1)"
    and e: "etype ev' = OUTPUT"
    and b: "buf ev' = (copy_bytes (buf data) (unat (len ev')) src)[unat (len ev') := CHR 0x00]"
    by blast
  from size_receive_buf [of cnt] l have bound: "uint (len ev') \<le> 4095" by simp
  have n: "unat (len ev') \<le> 4095" using bound unfolding uint_nat by linarith
  from printevent_probe [of ev' t'] e
  have p: "list_getitem EVENT_TYPES (sint (etype ev')) = Inr ''OUTPUT''"
    "\<exists>printed. printevent ev' t' = Inr printed"
    by (simp_all add: INPUT_def OUTPUT_def)
  have mem: "\<forall>d. reserved' = Some d \<and> length (buf d) = 4096 \<longrightarrow>
            length (buf ev') = 4096 \<and> unat (len ev') < length (buf ev')
            \<and> buf ev' ! unat (len ev') = CHR 0x00"
  proof (intro allI impI)
    fix d assume "reserved' = Some d \<and> length (buf d) = 4096"
    with res have len4096: "length (buf data) = 4096" by simp
    have lt: "unat (len ev') < length (buf data)" using n len4096 by simp
    from terminated_buf [OF lt, of src "CHR 0x00"] b len4096 lt
    show "length (buf ev') = 4096 \<and> unat (len ev') < length (buf ev')
            \<and> buf ev' ! unat (len ev') = CHR 0x00"
      by simp
  qed
  show "uint (len ev') \<le> 4095
      \<and> sint (etype ev') = 0
      \<and> list_getitem EVENT_TYPES (sint (etype ev')) = Inr ''OUTPUT''
      \<and> (\<exists>printed. printevent ev' t' = Inr printed)
      \<and> (\<forall>data. reserved' = Some data \<and> length (buf data) = 4096 \<longrightarrow>
            length (buf ev') = 4096 \<and> unat (len ev') < length (buf ev')
            \<and> buf ev' ! unat (len ev') = CHR 0x00)"
  proof -
    have s0: "sint (etype ev') = 0" using e by (simp add: OUTPUT_def)
    show ?thesis using bound s0 p mem by blast
  qed
qed


text \<open>
  A run of the theorem: a write of three bytes, and a receive call with the count \<open>-1\<close>,
  which the unsigned comparison turns into 4095.
\<close>

theorem probe_records_printable_witness:
  "(\<exists>ev. kprobe__tty_write
        \<lparr>ktime_get_ns = 1000, current_cgroup_id = 1, current_pid_tgid = 18219251269639,
         current_comm = ''bash'' @ replicate 12 (CHR 0x00), ns_inum = 2\<rparr>
        \<lparr>iter_type = ITER_UBUF, data_source = True, iov_base = 0, iov_len = 0,
         ubuf = 140737488351232, count = 3\<rparr>
        5
        (Some \<lparr>rawtime = 0, cgid = 0, inode = 0, pidtgid = 0, nsid = 0,
               comm = replicate 16 (CHR 0x00), buf = replicate 4096 (CHR 0x00),
               len = 0, etype = 0\<rparr>)
        (Some (\<lambda>i. ''ls\<newline>'' ! i)) = Some ev
      \<and> uint (len ev) \<le> 4095 \<and> sint (etype ev) = 1
      \<and> list_getitem EVENT_TYPES (sint (etype ev)) = Inr ''INPUT'')
   \<and> (\<exists>ev. kprobe__n_tty_receive_buf_common
        \<lparr>ktime_get_ns = 1000, current_cgroup_id = 1, current_pid_tgid = 18219251269639,
         current_comm = ''bash'' @ replicate 12 (CHR 0x00), ns_inum = 2\<rparr>
        18446612682070000000 (- 1) (Some 5)
        (Some \<lparr>rawtime = 0, cgid = 0, inode = 0, pidtgid = 0, nsid = 0,
               comm = replicate 16 (CHR 0x00), buf = replicate 4096 (CHR 0x00),
               len = 0, etype = 0\<rparr>)
        (Some (\<lambda>i. CHR ''x'')) = Some ev
      \<and> uint (len ev) \<le> 4095 \<and> sint (etype ev) = 0
      \<and> list_getitem EVENT_TYPES (sint (etype ev)) = Inr ''OUTPUT'')"
proof -
  let ?task = "\<lparr>ktime_get_ns = 1000, current_cgroup_id = 1, current_pid_tgid = 18219251269639,
         current_comm = ''bash'' @ replicate 12 (CHR 0x00), ns_inum = 2\<rparr>"
  let ?from = "\<lparr>iter_type = ITER_UBUF, data_source = True, iov_base = 0, iov_len = 0,
         ubuf = 140737488351232, count = 3\<rparr>"
  let ?blank = "\<lparr>rawtime = 0, cgid = 0, inode = 0, pidtgid = 0, nsid = 0,
               comm = replicate 16 (CHR 0x00), buf = replicate 4096 (CHR 0x00),
               len = 0, etype = 0\<rparr>"
  let ?src = "\<lambda>i. ''ls\<newline>'' ! i"
  let ?fill = "\<lambda>i::nat. CHR ''x''"
  obtain ev where w: "kprobe__tty_write ?task ?from 5 (Some ?blank) (Some ?src) = Some ev"
    by (simp add: kprobe__tty_write_def Let_def PAGE_SIZE_def)
  obtain ev' where r: "kprobe__n_tty_receive_buf_common ?task 18446612682070000000 (- 1) (Some 5)
        (Some ?blank) (Some ?fill) = Some ev'"
    by (simp add: kprobe__n_tty_receive_buf_common_def Let_def PAGE_SIZE_def)
  from probe_records_printable [where task = ?task and iter = ?from and i_ino = 5
      and reserved = "Some ?blank" and user_mem = "Some ?src" and ev = ev
      and task' = ?task and cp = 18446612682070000000 and cnt = "- 1" and ino = "Some 5"
      and reserved' = "Some ?blank" and kernel_mem = "Some ?fill" and ev' = ev'
      and t = 0 and t' = 0]
    w r
  show ?thesis by blast
qed

end
